theory Spec2Isabelle
  imports Main "HOL-Library.Word"
begin

section \<open>Tile renderer: data model\<close>

text \<open>
  The embedding follows \<^verbatim>\<open>tilerenderer/renderer.go\<close>. The collaborators of
  \<^verbatim>\<open>TileRenderer\<close> (the tile database, the map block renderer, the PNG codec, the
  resampling library and the coordinate helpers) are not part of that file; they are
  fields of the record \<open>env\<close> below, so every result holds for any behaviour they have.
\<close>

type_synonym bytes = "8 word list"

text \<open>\<^verbatim>\<open>coords.TileCoords\<close>: the address of a tile.\<close>

record TileCoords =
  tc_X :: int
  tc_Y :: int
  tc_Zoom :: int
  tc_LayerId :: int

text \<open>\<^verbatim>\<open>coords.TileQuadrants\<close>: the four tiles one zoom level below a tile.\<close>

record TileQuadrants =
  UpperLeft :: TileCoords
  UpperRight :: TileCoords
  LowerLeft :: TileCoords
  LowerRight :: TileCoords

text \<open>\<^verbatim>\<open>coords.MapBlockCoords\<close> and \<^verbatim>\<open>coords.MapBlockRange\<close>.\<close>

record MapBlockCoords =
  mb_X :: int
  mb_Y :: int
  mb_Z :: int

record MapBlockRange =
  Pos1 :: MapBlockCoords
  Pos2 :: MapBlockCoords

text \<open>\<^verbatim>\<open>layer.Layer\<close>: the fields the renderer reads.\<close>

record Layer =
  layer_Id :: int
  layer_From :: int
  layer_To :: int

text \<open>\<^verbatim>\<open>tiledb.Tile\<close>: a cache entry.\<close>

record Tile =
  Pos :: TileCoords
  Data :: bytes
  Mtime :: int

text \<open>
  The errors of the Go code are values of type \<^verbatim>\<open>error\<close>. The two the renderer makes
  itself are \<open>NoLayerFound\<close> and \<open>InvalidZoom\<close>; the others come from the collaborators.
\<close>

datatype error =
  NoLayerFound
  | InvalidZoom
  | CacheIOError string
  | DecodeError string
  | RenderError string

subsection \<open>Rasters\<close>

text \<open>
  \<^verbatim>\<open>image.Point\<close>, \<^verbatim>\<open>image.Rectangle\<close> (half open: \<open>Min\<close> inside, \<open>Max\<close> outside) and
  \<^verbatim>\<open>image.NRGBA\<close>. A colour is four bytes (red, green, blue, alpha, not premultiplied);
  the pixel buffer is a function of the coordinates, read through \<open>NRGBAAt\<close>, which like
  Go's method answers the zero colour outside the bounds.
\<close>

type_synonym Point = "int \<times> int"

type_synonym color = "8 word \<times> 8 word \<times> 8 word \<times> 8 word"

record Rectangle =
  rect_Min :: Point
  rect_Max :: Point

record NRGBA =
  img_Rect :: Rectangle
  img_Pix :: "int \<Rightarrow> int \<Rightarrow> color"

definition transparent :: color where
  "transparent = (0, 0, 0, 0)"

definition ZP :: Point where
  "ZP = (0, 0)"

definition IMG_SIZE :: int where
  "IMG_SIZE = 256"

definition Rect :: "int \<Rightarrow> int \<Rightarrow> int \<Rightarrow> int \<Rightarrow> Rectangle" where
  "Rect x0 y0 x1 y1 =
     \<lparr>rect_Min = (if x0 > x1 then x1 else x0, if y0 > y1 then y1 else y0),
      rect_Max = (if x0 > x1 then x0 else x1, if y0 > y1 then y0 else y1)\<rparr>"

definition In :: "Point \<Rightarrow> Rectangle \<Rightarrow> bool" where
  "In p r \<longleftrightarrow>
     fst (rect_Min r) \<le> fst p \<and> fst p < fst (rect_Max r) \<and>
     snd (rect_Min r) \<le> snd p \<and> snd p < snd (rect_Max r)"

definition NewNRGBA :: "Rectangle \<Rightarrow> NRGBA" where
  "NewNRGBA r = \<lparr>img_Rect = r, img_Pix = (\<lambda>x y. transparent)\<rparr>"

definition NRGBAAt :: "NRGBA \<Rightarrow> int \<Rightarrow> int \<Rightarrow> color" where
  "NRGBAAt img x y = (if In (x, y) (img_Rect img) then img_Pix img x y else transparent)"

text \<open>
  \<^verbatim>\<open>draw.Draw(dst, r, src, sp, draw.Src)\<close>: the rectangle \<open>r\<close> is clipped to the bounds
  of \<open>dst\<close> and to the bounds of \<open>src\<close> moved so that \<open>sp\<close> lies on the corner of \<open>r\<close>;
  every pixel that is left takes the colour of its source pixel, all others keep theirs.
\<close>

definition Draw :: "NRGBA \<Rightarrow> Rectangle \<Rightarrow> NRGBA \<Rightarrow> Point \<Rightarrow> NRGBA" where
  "Draw dst r src sp =
     dst\<lparr>img_Pix := (\<lambda>x y.
        let sx = x - fst (rect_Min r) + fst sp;
            sy = y - snd (rect_Min r) + snd sp
        in if In (x, y) r \<and> In (x, y) (img_Rect dst) \<and> In (sx, sy) (img_Rect src)
           then img_Pix src sx sy
           else img_Pix dst x y)\<rparr>"

section \<open>Collaborators and state\<close>

text \<open>
  What the renderer is built from (\<^verbatim>\<open>NewTileRenderer\<close>) and what it calls:
  \<^item> \<open>layers\<close>: the field \<^verbatim>\<open>tr.layers\<close>;
  \<^item> \<open>tdb_get_error\<close>, \<open>tdb_set_error\<close>: when the tile database \<^verbatim>\<open>tr.tdb\<close> answers
    \<^verbatim>\<open>GetTile\<close> or \<^verbatim>\<open>SetTile\<close> with an error;
  \<^item> \<open>mapblockrenderer_Render\<close>: \<^verbatim>\<open>tr.mapblockrenderer.Render\<close>, a raster, nil or an error;
  \<^item> \<open>GetMapBlockRangeFromTile\<close>: \<^verbatim>\<open>coords.GetMapBlockRangeFromTile\<close>;
  \<^item> \<open>png_Decode\<close>: \<^verbatim>\<open>png.Decode\<close>, the decoded image seen through the NRGBA colour
    model, which is how \<^verbatim>\<open>draw.Draw\<close> reads it;
  \<^item> \<open>png_Encode\<close>: the bytes \<^verbatim>\<open>png.Encode\<close> leaves in the buffer;
  \<^item> \<open>imaging_Resize\<close>: \<^verbatim>\<open>imaging.Resize\<close> with the Lanczos filter.
\<close>

record env =
  layers :: "Layer list"
  tdb_get_error :: "TileCoords \<Rightarrow> error option"
  tdb_set_error :: "Tile \<Rightarrow> error option"
  mapblockrenderer_Render :: "MapBlockCoords \<Rightarrow> MapBlockCoords \<Rightarrow> error + NRGBA option"
  GetMapBlockRangeFromTile :: "TileCoords \<Rightarrow> int \<Rightarrow> MapBlockRange"
  png_Decode :: "bytes \<Rightarrow> error + NRGBA"
  png_Encode :: "NRGBA \<Rightarrow> bytes"
  imaging_Resize :: "NRGBA \<Rightarrow> int \<Rightarrow> int \<Rightarrow> NRGBA"

text \<open>
  Everything the renderer does to the outside is recorded in \<open>trace\<close>, oldest event
  first. \<open>EvRenderImage\<close> is a ghost event: it marks the entry of \<^verbatim>\<open>RenderImage\<close> with
  its two arguments and has no counterpart in the Go code.
\<close>

datatype event =
  EvGetTile TileCoords
  | EvSetTile Tile
  | EvRender MapBlockCoords MapBlockCoords
  | EvRenderImage TileCoords bool

text \<open>
  The state: the content of the tile database, the wall clock that
  \<^verbatim>\<open>time.Now().Unix()\<close> reads, and the trace.
\<close>

record state =
  cache :: "TileCoords \<rightharpoonup> Tile"
  now :: int
  trace :: "event list"

definition emit :: "event \<Rightarrow> state \<Rightarrow> state" where
  "emit ev s = s\<lparr>trace := trace s @ [ev]\<rparr>"

text \<open>\<^verbatim>\<open>tr.tdb.GetTile(tc)\<close>: the entry, nil when there is none, or an error.\<close>

definition GetTile :: "env \<Rightarrow> TileCoords \<Rightarrow> state \<Rightarrow> (error + Tile option) \<times> state" where
  "GetTile e tc s =
     (case tdb_get_error e tc of
        Some err \<Rightarrow> (Inl err, emit (EvGetTile tc) s)
      | None \<Rightarrow> (Inr (cache s tc), emit (EvGetTile tc) s))"

text \<open>\<^verbatim>\<open>tr.tdb.SetTile(&tile)\<close>: a write that fails stores nothing.\<close>

definition SetTile :: "env \<Rightarrow> Tile \<Rightarrow> state \<Rightarrow> error option \<times> state" where
  "SetTile e t s =
     (case tdb_set_error e t of
        Some err \<Rightarrow> (Some err, emit (EvSetTile t) s)
      | None \<Rightarrow> (None, (emit (EvSetTile t) s)\<lparr>cache := (cache s)(Pos t \<mapsto> t)\<rparr>))"

text \<open>\<^verbatim>\<open>tr.mapblockrenderer.Render(pos1, pos2)\<close>.\<close>

definition leaf_Render ::
  "env \<Rightarrow> MapBlockCoords \<Rightarrow> MapBlockCoords \<Rightarrow> state \<Rightarrow> (error + NRGBA option) \<times> state" where
  "leaf_Render e p1 p2 s = (mapblockrenderer_Render e p1 p2, emit (EvRender p1 p2) s)"

text \<open>
  Modelled from the spec: \<^verbatim>\<open>TileCoords.GetZoomedQuadrantsFromTile\<close> of package
  \<^verbatim>\<open>coords\<close>, which is not among the sources. The spec gives four addresses at
  zoom + 1, one for each quadrant of the parent tile; they are taken in the same layer,
  on the grid twice as fine.
\<close>

definition GetZoomedQuadrantsFromTile :: "TileCoords \<Rightarrow> TileQuadrants" where
  "GetZoomedQuadrantsFromTile tc =
     \<lparr>UpperLeft = \<lparr>tc_X = tc_X tc * 2, tc_Y = tc_Y tc * 2,
                    tc_Zoom = tc_Zoom tc + 1, tc_LayerId = tc_LayerId tc\<rparr>,
      UpperRight = \<lparr>tc_X = tc_X tc * 2 + 1, tc_Y = tc_Y tc * 2,
                     tc_Zoom = tc_Zoom tc + 1, tc_LayerId = tc_LayerId tc\<rparr>,
      LowerLeft = \<lparr>tc_X = tc_X tc * 2, tc_Y = tc_Y tc * 2 + 1,
                    tc_Zoom = tc_Zoom tc + 1, tc_LayerId = tc_LayerId tc\<rparr>,
      LowerRight = \<lparr>tc_X = tc_X tc * 2 + 1, tc_Y = tc_Y tc * 2 + 1,
                     tc_Zoom = tc_Zoom tc + 1, tc_LayerId = tc_LayerId tc\<rparr>\<rparr>"

section \<open>The layer loop\<close>

text \<open>
  \<^verbatim>\<open>
  var layer *layer.Layer
  for _, l := range tr.layers {
      if l.Id == tc.LayerId {
          layer = &l
      }
  }
  \<close>
  The repository is built with Go 1.16 (\<^verbatim>\<open>docker-compose.yml\<close>: \<^verbatim>\<open>golang:1.16.0\<close>).
  Before Go 1.22 a range loop has one variable \<^verbatim>\<open>l\<close> for all its iterations, so
  \<^verbatim>\<open>&l\<close> is the same address each time, and the loop does not stop at a match. The
  store of the loop is therefore the value of \<^verbatim>\<open>l\<close> and the pointer \<^verbatim>\<open>layer\<close>, which is
  nil or the address of \<^verbatim>\<open>l\<close>.
\<close>

datatype layer_ptr = NilLayer | AddrOfL

fun layer_loop :: "Layer list \<Rightarrow> int \<Rightarrow> Layer \<times> layer_ptr \<Rightarrow> Layer \<times> layer_ptr" where
  "layer_loop [] lid (l, p) = (l, p)"
| "layer_loop (x # xs) lid (l, p) =
     layer_loop xs lid (x, if layer_Id x = lid then AddrOfL else p)"

text \<open>
  The loop run from the start (\<^verbatim>\<open>l\<close> unset, \<^verbatim>\<open>layer\<close> nil), and \<^verbatim>\<open>layer\<close> read
  afterwards: \<open>None\<close> is the nil pointer, \<open>Some\<close> holds what \<^verbatim>\<open>*layer\<close> is.
\<close>

definition find_layer :: "Layer list \<Rightarrow> int \<Rightarrow> Layer option" where
  "find_layer ls lid =
     (case layer_loop ls lid (\<lparr>layer_Id = 0, layer_From = 0, layer_To = 0\<rparr>, NilLayer) of
        (l, NilLayer) \<Rightarrow> None
      | (l, AddrOfL) \<Rightarrow> Some l)"

section \<open>RenderImage and Render\<close>

definition tile_rect :: Rectangle where
  "tile_rect = \<lparr>rect_Min = (0, 0), rect_Max = (IMG_SIZE, IMG_SIZE)\<rparr>"

text \<open>Lines 82 to 96: a cache entry is decoded and drawn on a new raster of the tile size.\<close>

definition from_cache :: "env \<Rightarrow> Tile \<Rightarrow> error + NRGBA option" where
  "from_cache e cachedtile =
     (case png_Decode e (Data cachedtile) of
        Inl err \<Rightarrow> Inl err
      | Inr cachedimg \<Rightarrow> Inr (Some (Draw (NewNRGBA tile_rect) tile_rect cachedimg ZP)))"

text \<open>One of the four blocks of lines 162 to 184.\<close>

definition draw_quadrant :: "env \<Rightarrow> NRGBA \<Rightarrow> Rectangle \<Rightarrow> NRGBA option \<Rightarrow> NRGBA" where
  "draw_quadrant e img rect child =
     (case child of
        None \<Rightarrow> img
      | Some c \<Rightarrow> Draw img rect (imaging_Resize e c 128 128) ZP)"

text \<open>Lines 155 to 184: the four children on one raster.\<close>

definition compose ::
  "env \<Rightarrow> NRGBA option \<Rightarrow> NRGBA option \<Rightarrow> NRGBA option \<Rightarrow> NRGBA option \<Rightarrow> NRGBA" where
  "compose e upperLeft upperRight lowerLeft lowerRight =
     (let img = NewNRGBA tile_rect;
          img = draw_quadrant e img (Rect 0 0 128 128) upperLeft;
          img = draw_quadrant e img (Rect 128 0 256 128) upperRight;
          img = draw_quadrant e img (Rect 0 128 128 256) lowerLeft;
          img = draw_quadrant e img (Rect 128 128 256 256) lowerRight
      in img)"

text \<open>
  Lines 186 to 194: the raster is encoded and stored for the address; what
  \<^verbatim>\<open>SetTile\<close> returns is dropped.
\<close>

definition store_composite :: "env \<Rightarrow> TileCoords \<Rightarrow> NRGBA \<Rightarrow> state \<Rightarrow> (error + NRGBA option) \<times> state" where
  "store_composite e tc img s =
     (let tile = \<lparr>Pos = tc, Data = png_Encode e img, Mtime = now s\<rparr>
      in (Inr (Some img), snd (SetTile e tile s)))"

text \<open>Lines 121 to 127: the finest zoom is rendered from the map blocks.\<close>

definition render_mapblocks :: "env \<Rightarrow> TileCoords \<Rightarrow> Layer \<Rightarrow> state \<Rightarrow> (error + NRGBA option) \<times> state" where
  "render_mapblocks e tc layer s =
     (let mbr = GetMapBlockRangeFromTile e tc 0;
          p1 = (Pos1 mbr)\<lparr>mb_Y := layer_From layer\<rparr>;
          p2 = (Pos2 mbr)\<lparr>mb_Y := layer_To layer\<rparr>
      in leaf_Render e p1 p2 s)"

text \<open>
  \<^verbatim>\<open>RenderImage\<close>, lines 74 to 195, in the order of the source: the lookup and its
  error (76 to 79), the cache hit (81 to 97), the cache-only miss (99 to 101), the layer
  loop and the nil check (105 to 115), the zoom check (117 to 119), the finest zoom (121
  to 128), the four children with the error of each returned at once (131 to 153), the
  composite and the cache write (155 to 194). The debug log of line 103 is not an event.
  The recursion ends because a child is one zoom level below its parent and nothing is
  rendered below zoom 13.
\<close>

function RenderImage :: "env \<Rightarrow> TileCoords \<Rightarrow> bool \<Rightarrow> state \<Rightarrow> (error + NRGBA option) \<times> state" where
  "RenderImage e tc cachedOnly s =
     (case GetTile e tc (emit (EvRenderImage tc cachedOnly) s) of
        (Inl err, s0) \<Rightarrow> (Inl err, s0)
      | (Inr (Some cachedtile), s0) \<Rightarrow> (from_cache e cachedtile, s0)
      | (Inr None, s0) \<Rightarrow>
          if cachedOnly then (Inr None, s0)
          else (case find_layer (layers e) (tc_LayerId tc) of
            None \<Rightarrow> (Inl NoLayerFound, s0)
          | Some layer \<Rightarrow>
              if tc_Zoom tc > 13 \<or> tc_Zoom tc < 1 then (Inl InvalidZoom, s0)
              else if tc_Zoom tc = 13 then render_mapblocks e tc layer s0
              else
                (let quads = GetZoomedQuadrantsFromTile tc;
                     recursiveCachedOnly = (tc_Zoom tc < 12)
                 in case RenderImage e (UpperLeft quads) recursiveCachedOnly s0 of
                      (Inl err, s1) \<Rightarrow> (Inl err, s1)
                    | (Inr upperLeft, s1) \<Rightarrow>
                 (case RenderImage e (UpperRight quads) recursiveCachedOnly s1 of
                      (Inl err, s2) \<Rightarrow> (Inl err, s2)
                    | (Inr upperRight, s2) \<Rightarrow>
                 (case RenderImage e (LowerLeft quads) recursiveCachedOnly s2 of
                      (Inl err, s3) \<Rightarrow> (Inl err, s3)
                    | (Inr lowerLeft, s3) \<Rightarrow>
                 (case RenderImage e (LowerRight quads) recursiveCachedOnly s3 of
                      (Inl err, s4) \<Rightarrow> (Inl err, s4)
                    | (Inr lowerRight, s4) \<Rightarrow>
                        store_composite e tc
                          (compose e upperLeft upperRight lowerLeft lowerRight) s4))))))"
  by pat_completeness auto
termination
  by (relation "measure (\<lambda>(e, tc, cachedOnly, s). nat (13 - tc_Zoom tc))")
     (auto simp: GetZoomedQuadrantsFromTile_def)

declare RenderImage.simps [simp del]

text \<open>
  \<^verbatim>\<open>Render\<close>, lines 44 to 72: the bytes of a cache hit as they are stored, else the
  encoding of what \<^verbatim>\<open>RenderImage\<close> returns, or nil when that is nil.
\<close>

definition Render :: "env \<Rightarrow> TileCoords \<Rightarrow> state \<Rightarrow> (error + bytes option) \<times> state" where
  "Render e tc s =
     (case GetTile e tc s of
        (Inl err, s0) \<Rightarrow> (Inl err, s0)
      | (Inr None, s0) \<Rightarrow>
          (case RenderImage e tc False s0 of
             (Inl err, s1) \<Rightarrow> (Inl err, s1)
           | (Inr None, s1) \<Rightarrow> (Inr None, s1)
           | (Inr (Some img), s1) \<Rightarrow> (Inr (Some (png_Encode e img)), s1))
      | (Inr (Some tile), s0) \<Rightarrow> (Inr (Some (Data tile)), s0))"

section \<open>Observing a run\<close>

text \<open>The events a run has added to the trace, and the ones of each kind among them.\<close>

definition new_events :: "state \<Rightarrow> state \<Rightarrow> event list" where
  "new_events s s' = drop (length (trace s)) (trace s')"

fun calls :: "event list \<Rightarrow> (TileCoords \<times> bool) list" where
  "calls [] = []"
| "calls (EvRenderImage a f # evs) = (a, f) # calls evs"
| "calls (ev # evs) = calls evs"

fun writes :: "event list \<Rightarrow> Tile list" where
  "writes [] = []"
| "writes (EvSetTile t # evs) = t # writes evs"
| "writes (ev # evs) = writes evs"

fun leaf_calls :: "event list \<Rightarrow> (MapBlockCoords \<times> MapBlockCoords) list" where
  "leaf_calls [] = []"
| "leaf_calls (EvRender p1 p2 # evs) = (p1, p2) # leaf_calls evs"
| "leaf_calls (ev # evs) = leaf_calls evs"

text \<open>The state once \<^verbatim>\<open>RenderImage\<close> has been entered and has looked its address up.\<close>

definition entered :: "TileCoords \<Rightarrow> bool \<Rightarrow> state \<Rightarrow> state" where
  "entered tc f s = s\<lparr>trace := trace s @ [EvRenderImage tc f, EvGetTile tc]\<rparr>"

text \<open>The four children in the order in which \<^verbatim>\<open>RenderImage\<close> renders them.\<close>

definition quad_list :: "TileCoords \<Rightarrow> TileCoords list" where
  "quad_list tc =
     (let quads = GetZoomedQuadrantsFromTile tc
      in [UpperLeft quads, UpperRight quads, LowerLeft quads, LowerRight quads])"

text \<open>
  What \<^verbatim>\<open>RenderImage\<close> returns for the child \<open>a\<close> of the tile \<open>tc\<close>, with the flag the
  parent passes, against the cache of \<open>s\<close>.
\<close>

definition child_result :: "env \<Rightarrow> TileCoords \<Rightarrow> state \<Rightarrow> TileCoords \<Rightarrow> error + NRGBA option" where
  "child_result e tc s a = fst (RenderImage e a (tc_Zoom tc < 12) s)"

text \<open>A layer id is registered when some layer of the list carries it.\<close>

definition registered :: "env \<Rightarrow> int \<Rightarrow> bool" where
  "registered e lid \<longleftrightarrow> lid \<in> layer_Id ` set (layers e)"

text \<open>
  What a quadrant of a composed tile should show at the offset \<open>(u, v)\<close> from its
  corner: nothing for an empty child, else the pixel of the child resized to 128 by 128.
\<close>

definition quadrant_pixel :: "env \<Rightarrow> NRGBA option \<Rightarrow> int \<Rightarrow> int \<Rightarrow> color" where
  "quadrant_pixel e child u v =
     (case child of
        None \<Rightarrow> transparent
      | Some c \<Rightarrow> NRGBAAt (imaging_Resize e c 128 128) u v)"

definition blank_in :: "NRGBA \<Rightarrow> Rectangle \<Rightarrow> bool" where
  "blank_in img r \<longleftrightarrow> (\<forall>x y. In (x, y) r \<longrightarrow> NRGBAAt img x y = transparent)"

section \<open>A small world to run the renderer in\<close>

text \<open>
  Two layers, a database that never fails, a map block renderer that paints every tile
  white, and stand-ins for the libraries: a codec that keeps the colour of the first
  pixel, and a resize that takes every second pixel. One map block column per tile.
\<close>

definition ex_layers :: "Layer list" where
  "ex_layers =
     [\<lparr>layer_Id = 0, layer_From = -1, layer_To = 10\<rparr>,
      \<lparr>layer_Id = 1, layer_From = 11, layer_To = 24\<rparr>]"

definition ex_range :: "TileCoords \<Rightarrow> int \<Rightarrow> MapBlockRange" where
  "ex_range tc y =
     \<lparr>Pos1 = \<lparr>mb_X = tc_X tc, mb_Y = y, mb_Z = tc_Y tc\<rparr>,
      Pos2 = \<lparr>mb_X = tc_X tc, mb_Y = y, mb_Z = tc_Y tc\<rparr>\<rparr>"

definition ex_white :: NRGBA where
  "ex_white = \<lparr>img_Rect = tile_rect, img_Pix = (\<lambda>x y. (255, 255, 255, 255))\<rparr>"

definition ex_Decode :: "bytes \<Rightarrow> error + NRGBA" where
  "ex_Decode bs =
     (case bs of
        [r, g, b, a] \<Rightarrow> Inr \<lparr>img_Rect = tile_rect, img_Pix = (\<lambda>x y. (r, g, b, a))\<rparr>
      | _ \<Rightarrow> Inl (DecodeError ''png: invalid format''))"

definition ex_Encode :: "NRGBA \<Rightarrow> bytes" where
  "ex_Encode img = (case NRGBAAt img 0 0 of (r, g, b, a) \<Rightarrow> [r, g, b, a])"

definition ex_Resize :: "NRGBA \<Rightarrow> int \<Rightarrow> int \<Rightarrow> NRGBA" where
  "ex_Resize img w h =
     \<lparr>img_Rect = Rect 0 0 w h, img_Pix = (\<lambda>x y. NRGBAAt img (2 * x) (2 * y))\<rparr>"

definition ex_env :: env where
  "ex_env =
     \<lparr>layers = ex_layers,
      tdb_get_error = (\<lambda>tc. None),
      tdb_set_error = (\<lambda>t. None),
      mapblockrenderer_Render = (\<lambda>p1 p2. Inr (Some ex_white)),
      GetMapBlockRangeFromTile = ex_range,
      png_Decode = ex_Decode,
      png_Encode = ex_Encode,
      imaging_Resize = ex_Resize\<rparr>"


definition ex_tc :: "int \<Rightarrow> int \<Rightarrow> TileCoords" where
  "ex_tc zoom lid = \<lparr>tc_X = 3, tc_Y = 7, tc_Zoom = zoom, tc_LayerId = lid\<rparr>"

definition ex_cold :: state where
  "ex_cold = \<lparr>cache = Map.empty, now = 1600000000, trace = []\<rparr>"

text \<open>A database with one entry whose bytes are not an image.\<close>

definition ex_corrupt :: state where
  "ex_corrupt =
     \<lparr>cache = [ex_tc 7 0 \<mapsto> \<lparr>Pos = ex_tc 7 0, Data = [1, 2, 3], Mtime = 1500000000\<rparr>],
      now = 1600000000, trace = []\<rparr>"

text \<open>
  The database once the cold tile \<open>ex_tc 5 0\<close> has been asked for: it holds the encoding
  of the all-blank composite. \<open>ex_parent\<close> is the tile at zoom 4 above it (the tile is
  its lower right child), and \<open>ex_blank_child\<close> the raster that entry decodes to.
\<close>

definition ex_visited :: state where
  "ex_visited =
     \<lparr>cache = [ex_tc 5 0 \<mapsto>
        \<lparr>Pos = ex_tc 5 0, Data = ex_Encode (NewNRGBA tile_rect), Mtime = 1600000000\<rparr>],
      now = 1600000060, trace = []\<rparr>"

definition ex_parent :: TileCoords where
  "ex_parent = \<lparr>tc_X = 1, tc_Y = 3, tc_Zoom = 4, tc_LayerId = 0\<rparr>"

definition ex_blank_child :: NRGBA where
  "ex_blank_child =
     Draw (NewNRGBA tile_rect) tile_rect
       \<lparr>img_Rect = tile_rect, img_Pix = (\<lambda>x y. (0, 0, 0, 0))\<rparr> ZP"

text \<open>
  A database that holds one child of \<open>ex_tc 5 0\<close>, the upper right one, as a red tile;
  \<open>ex_red\<close> is the raster that entry decodes to.
\<close>

definition ex_warm :: state where
  "ex_warm =
     \<lparr>cache = [\<lparr>tc_X = 7, tc_Y = 14, tc_Zoom = 6, tc_LayerId = 0\<rparr> \<mapsto>
        \<lparr>Pos = \<lparr>tc_X = 7, tc_Y = 14, tc_Zoom = 6, tc_LayerId = 0\<rparr>,
         Data = [255, 0, 0, 255], Mtime = 1500000000\<rparr>],
      now = 1600000000, trace = []\<rparr>"

definition ex_red :: NRGBA where
  "ex_red =
     Draw (NewNRGBA tile_rect) tile_rect
       \<lparr>img_Rect = tile_rect, img_Pix = (\<lambda>x y. (255, 0, 0, 255))\<rparr> ZP"

text \<open>
  The example world with a database that accepts the write of \<open>ex_tc 12 0\<close> and no
  other, and a behaviour of \<^verbatim>\<open>GetTile\<close> that answers for one address only.
\<close>

definition ex_env_own :: env where
  "ex_env_own =
     ex_env\<lparr>tdb_set_error :=
       (\<lambda>w. if Pos w = ex_tc 12 0 then None else Some (CacheIOError ''read-only''))\<rparr>"

definition ex_only :: "TileCoords \<Rightarrow> TileCoords \<Rightarrow> error option" where
  "ex_only tc a = (if a = tc then None else Some (CacheIOError ''offline''))"

section \<open>Basic facts\<close>

lemma calls_append [simp]: "calls (xs @ ys) = calls xs @ calls ys"
  by (induction xs rule: calls.induct) auto

lemma writes_append [simp]: "writes (xs @ ys) = writes xs @ writes ys"
  by (induction xs rule: writes.induct) auto

lemma leaf_calls_append [simp]: "leaf_calls (xs @ ys) = leaf_calls xs @ leaf_calls ys"
  by (induction xs rule: leaf_calls.induct) auto

lemma layer_loop_ptr:
  "snd (layer_loop ls lid (l, p)) = (if lid \<in> layer_Id ` set ls then AddrOfL else p)"
  by (induction ls arbitrary: l p) auto

lemma layer_loop_var:
  "fst (layer_loop ls lid (l, p)) = (if ls = [] then l else last ls)"
  by (induction ls arbitrary: l p) auto

lemma find_layer_eq:
  "find_layer ls lid = (if lid \<in> layer_Id ` set ls then Some (last ls) else None)"
proof -
  obtain l p where lp: "layer_loop ls lid (\<lparr>layer_Id = 0, layer_From = 0, layer_To = 0\<rparr>, NilLayer) = (l, p)"
    by (cases "layer_loop ls lid (\<lparr>layer_Id = 0, layer_From = 0, layer_To = 0\<rparr>, NilLayer)")
  from lp layer_loop_ptr [of ls lid "\<lparr>layer_Id = 0, layer_From = 0, layer_To = 0\<rparr>" NilLayer]
  have p: "p = (if lid \<in> layer_Id ` set ls then AddrOfL else NilLayer)" by simp
  from lp layer_loop_var [of ls lid "\<lparr>layer_Id = 0, layer_From = 0, layer_To = 0\<rparr>" NilLayer]
  have l: "l = (if ls = [] then \<lparr>layer_Id = 0, layer_From = 0, layer_To = 0\<rparr> else last ls)" by simp
  show ?thesis
    unfolding find_layer_def lp using p l by auto
qed

lemma RenderImage_cachedOnly:
  "RenderImage e tc True s =
     (case tdb_get_error e tc of
        Some err \<Rightarrow> (Inl err, entered tc True s)
      | None \<Rightarrow> (case cache s tc of
                   None \<Rightarrow> (Inr None, entered tc True s)
                 | Some t \<Rightarrow> (from_cache e t, entered tc True s)))"
  by (simp add: RenderImage.simps [of e tc True s] GetTile_def emit_def entered_def
      split: option.splits)

lemma RenderImage_zoom13:
  "tc_Zoom tc = 13 \<Longrightarrow> RenderImage e tc False s =
     (case tdb_get_error e tc of
        Some err \<Rightarrow> (Inl err, entered tc False s)
      | None \<Rightarrow> (case cache s tc of
                   Some t \<Rightarrow> (from_cache e t, entered tc False s)
                 | None \<Rightarrow> (case find_layer (layers e) (tc_LayerId tc) of
                      None \<Rightarrow> (Inl NoLayerFound, entered tc False s)
                    | Some layer \<Rightarrow> render_mapblocks e tc layer (entered tc False s))))"
  by (simp add: RenderImage.simps [of e tc False s] GetTile_def emit_def entered_def
      split: option.splits)

lemma RenderImage_hit:
  "tdb_get_error e tc = None \<Longrightarrow> cache s tc = Some t \<Longrightarrow>
   RenderImage e tc f s = (from_cache e t, entered tc f s)"
  by (simp add: RenderImage.simps [of e tc f s] GetTile_def emit_def entered_def)


lemma RenderImage_fresh:
  "tdb_get_error e tc = None \<Longrightarrow> cache s tc = None \<Longrightarrow>
   RenderImage e tc False s =
     (case find_layer (layers e) (tc_LayerId tc) of
            None \<Rightarrow> (Inl NoLayerFound, entered tc False s)
          | Some layer \<Rightarrow>
              if tc_Zoom tc > 13 \<or> tc_Zoom tc < 1 then (Inl InvalidZoom, entered tc False s)
              else if tc_Zoom tc = 13 then render_mapblocks e tc layer (entered tc False s)
              else
                (let quads = GetZoomedQuadrantsFromTile tc;
                     recursiveCachedOnly = (tc_Zoom tc < 12)
                 in case RenderImage e (UpperLeft quads) recursiveCachedOnly (entered tc False s) of
                      (Inl err, s1) \<Rightarrow> (Inl err, s1)
                    | (Inr upperLeft, s1) \<Rightarrow>
                 (case RenderImage e (UpperRight quads) recursiveCachedOnly s1 of
                      (Inl err, s2) \<Rightarrow> (Inl err, s2)
                    | (Inr upperRight, s2) \<Rightarrow>
                 (case RenderImage e (LowerLeft quads) recursiveCachedOnly s2 of
                      (Inl err, s3) \<Rightarrow> (Inl err, s3)
                    | (Inr lowerLeft, s3) \<Rightarrow>
                 (case RenderImage e (LowerRight quads) recursiveCachedOnly s3 of
                      (Inl err, s4) \<Rightarrow> (Inl err, s4)
                    | (Inr lowerRight, s4) \<Rightarrow>
                        store_composite e tc
                          (compose e upperLeft upperRight lowerLeft lowerRight) s4)))))"
  by (simp add: RenderImage.simps [of e tc False s] GetTile_def emit_def entered_def
      split: option.splits)

lemma flat_call:
  assumes flat: "f \<or> tc_Zoom a = 13" and run: "RenderImage e a f s = (r, s')"
  shows "cache s' = cache s \<and> now s' = now s \<and>
         (\<exists>evs. trace s' = trace s @ EvRenderImage a f # EvGetTile a # evs \<and>
                calls evs = [] \<and> writes evs = [] \<and> (f \<longrightarrow> evs = []))"
proof (cases f)
  case True
  with run show ?thesis
    by (auto simp: RenderImage_cachedOnly entered_def split: option.splits)
next
  case False
  with flat have z: "tc_Zoom a = 13" by simp
  from run False show ?thesis
    by (auto simp: RenderImage_zoom13 [OF z] entered_def render_mapblocks_def leaf_Render_def
        emit_def Let_def split: option.splits)
qed

lemma quads_flat:
  "1 \<le> tc_Zoom tc \<Longrightarrow> tc_Zoom tc \<le> 12 \<Longrightarrow> a \<in> set (quad_list tc) \<Longrightarrow>
   tc_Zoom tc < 12 \<or> tc_Zoom a = 13"
  by (auto simp: quad_list_def GetZoomedQuadrantsFromTile_def Let_def)

lemma compose_run:
  assumes get: "tdb_get_error e tc = None" and miss: "cache s tc = None"
    and lay: "find_layer (layers e) (tc_LayerId tc) = Some layer"
    and z: "1 \<le> tc_Zoom tc" "tc_Zoom tc \<le> 12"
    and run: "RenderImage e tc False s = (r, s')"
  shows "\<exists>evs. trace s' = trace s @ EvRenderImage tc False # EvGetTile tc # evs \<and>
           now s' = now s \<and>
           (tc_Zoom tc < 12 \<longrightarrow> leaf_calls evs = []) \<and>
           (case r of
              Inl err \<Rightarrow> cache s' = cache s \<and> writes evs = [] \<and>
                 (\<exists>n<4. calls evs = map (\<lambda>a. (a, tc_Zoom tc < 12)) (take (Suc n) (quad_list tc)))
            | Inr v \<Rightarrow> (\<exists>ul ur ll lr evs'.
                 v = Some (compose e ul ur ll lr) \<and>
                 evs = evs' @ [EvSetTile \<lparr>Pos = tc, Data = png_Encode e (compose e ul ur ll lr), Mtime = now s\<rparr>] \<and>
                 writes evs' = [] \<and>
                 calls evs = map (\<lambda>a. (a, tc_Zoom tc < 12)) (quad_list tc) \<and>
                 cache s' = (case tdb_set_error e \<lparr>Pos = tc, Data = png_Encode e (compose e ul ur ll lr), Mtime = now s\<rparr> of
                    None \<Rightarrow> (cache s)(tc \<mapsto> \<lparr>Pos = tc, Data = png_Encode e (compose e ul ur ll lr), Mtime = now s\<rparr>)
                  | Some err \<Rightarrow> cache s)))"
proof -
  define f where "f = (tc_Zoom tc < 12)"
  define q where "q = GetZoomedQuadrantsFromTile tc"
  define s0 where "s0 = entered tc False s"
  have ql: "quad_list tc = [UpperLeft q, UpperRight q, LowerLeft q, LowerRight q]"
    by (simp add: quad_list_def q_def Let_def)
  have fl: "\<And>a. a \<in> set (quad_list tc) \<Longrightarrow> f \<or> tc_Zoom a = 13"
    unfolding f_def using quads_flat [OF z] by blast
  obtain r1 s1 where c1: "RenderImage e (UpperLeft q) f s0 = (r1, s1)"
    by (cases "RenderImage e (UpperLeft q) f s0")
  obtain r2 s2 where c2: "RenderImage e (UpperRight q) f s1 = (r2, s2)"
    by (cases "RenderImage e (UpperRight q) f s1")
  obtain r3 s3 where c3: "RenderImage e (LowerLeft q) f s2 = (r3, s3)"
    by (cases "RenderImage e (LowerLeft q) f s2")
  obtain r4 s4 where c4: "RenderImage e (LowerRight q) f s3 = (r4, s4)"
    by (cases "RenderImage e (LowerRight q) f s3")
  from flat_call [OF _ c1] fl ql obtain e1 where
    p1: "cache s1 = cache s0" "now s1 = now s0"
        "trace s1 = trace s0 @ EvRenderImage (UpperLeft q) f # EvGetTile (UpperLeft q) # e1"
        "calls e1 = []" "writes e1 = []" "f \<longrightarrow> e1 = []"
    by auto
  from flat_call [OF _ c2] fl ql obtain e2 where
    p2: "cache s2 = cache s1" "now s2 = now s1"
        "trace s2 = trace s1 @ EvRenderImage (UpperRight q) f # EvGetTile (UpperRight q) # e2"
        "calls e2 = []" "writes e2 = []" "f \<longrightarrow> e2 = []"
    by auto
  from flat_call [OF _ c3] fl ql obtain e3 where
    p3: "cache s3 = cache s2" "now s3 = now s2"
        "trace s3 = trace s2 @ EvRenderImage (LowerLeft q) f # EvGetTile (LowerLeft q) # e3"
        "calls e3 = []" "writes e3 = []" "f \<longrightarrow> e3 = []"
    by auto
  from flat_call [OF _ c4] fl ql obtain e4 where
    p4: "cache s4 = cache s3" "now s4 = now s3"
        "trace s4 = trace s3 @ EvRenderImage (LowerRight q) f # EvGetTile (LowerRight q) # e4"
        "calls e4 = []" "writes e4 = []" "f \<longrightarrow> e4 = []"
    by auto
  have s0: "trace s0 = trace s @ [EvRenderImage tc False, EvGetTile tc]"
      "cache s0 = cache s" "now s0 = now s"
    by (simp_all add: s0_def entered_def)
  have unf: "RenderImage e tc False s =
      (case r1 of Inl err \<Rightarrow> (Inl err, s1) | Inr upperLeft \<Rightarrow>
       (case r2 of Inl err \<Rightarrow> (Inl err, s2) | Inr upperRight \<Rightarrow>
       (case r3 of Inl err \<Rightarrow> (Inl err, s3) | Inr lowerLeft \<Rightarrow>
       (case r4 of Inl err \<Rightarrow> (Inl err, s4) | Inr lowerRight \<Rightarrow>
          store_composite e tc (compose e upperLeft upperRight lowerLeft lowerRight) s4))))"
    using z
    by (simp add: RenderImage_fresh [OF get miss] lay Let_def q_def [symmetric]
        f_def [symmetric] s0_def [symmetric] c1 c2 c3 c4 split: sum.split)
  note unf = unf [unfolded run]
  show ?thesis
  proof (cases r1)
    case (Inl err)
    with unf have "r = Inl err" "s' = s1" by simp_all
    then show ?thesis using p1 s0 ql
      by (auto simp: f_def intro!: exI [of _ 0])
  next
    case u1: (Inr ul)
    show ?thesis
    proof (cases r2)
      case (Inl err)
      with unf u1 have "r = Inl err" "s' = s2" by simp_all
      then show ?thesis using p1 p2 s0 ql
        by (auto simp: f_def intro!: exI [of _ 1])
    next
      case u2: (Inr ur)
      show ?thesis
      proof (cases r3)
        case (Inl err)
        with unf u1 u2 have "r = Inl err" "s' = s3" by simp_all
        then show ?thesis using p1 p2 p3 s0 ql
          by (auto simp: f_def intro!: exI [of _ 2])
      next
        case u3: (Inr ll)
        show ?thesis
        proof (cases r4)
          case (Inl err)
          with unf u1 u2 u3 have "r = Inl err" "s' = s4" by simp_all
          then show ?thesis using p1 p2 p3 p4 s0 ql
            by (auto simp: f_def intro!: exI [of _ 3])
        next
          case u4: (Inr lr)
          with unf u1 u2 u3 have rs: "r = Inr (Some (compose e ul ur ll lr))"
            "s' = snd (SetTile e \<lparr>Pos = tc, Data = png_Encode e (compose e ul ur ll lr), Mtime = now s4\<rparr> s4)"
            by (simp_all add: store_composite_def Let_def)
          have n4: "now s4 = now s" using p1 p2 p3 p4 s0 by simp
          have c4': "cache s4 = cache s" using p1 p2 p3 p4 s0 by simp
          define img where "img = compose e ul ur ll lr"
          define tile where "tile = \<lparr>Pos = tc, Data = png_Encode e img, Mtime = now s\<rparr>"
          define evs' where "evs' = EvRenderImage (UpperLeft q) f # EvGetTile (UpperLeft q) # e1 @
             EvRenderImage (UpperRight q) f # EvGetTile (UpperRight q) # e2 @
             EvRenderImage (LowerLeft q) f # EvGetTile (LowerLeft q) # e3 @
             EvRenderImage (LowerRight q) f # EvGetTile (LowerRight q) # e4"
          have t4: "trace s4 = trace s @ EvRenderImage tc False # EvGetTile tc # evs'"
            using p1 p2 p3 p4 s0 by (simp add: evs'_def)
          have s': "s' = snd (SetTile e tile s4)"
            using rs n4 by (simp add: tile_def img_def)
          have tr: "trace s' = trace s @ EvRenderImage tc False # EvGetTile tc # evs' @ [EvSetTile tile]"
            using t4 by (simp add: s' SetTile_def emit_def split: option.splits)
          have nw: "now s' = now s"
            using n4 by (simp add: s' SetTile_def emit_def split: option.splits)
          have ca: "cache s' = (case tdb_set_error e tile of
                    None \<Rightarrow> (cache s)(tc \<mapsto> tile) | Some err \<Rightarrow> cache s)"
            using c4' by (simp add: s' SetTile_def emit_def tile_def split: option.splits)
          have w: "writes evs' = []" using p1 p2 p3 p4 by (simp add: evs'_def)
          have c: "calls (evs' @ [EvSetTile tile]) = map (\<lambda>a. (a, tc_Zoom tc < 12)) (quad_list tc)"
            using p1 p2 p3 p4 by (simp add: evs'_def ql f_def)
          have l: "tc_Zoom tc < 12 \<longrightarrow> leaf_calls (evs' @ [EvSetTile tile]) = []"
            using p1 p2 p3 p4 by (simp add: evs'_def f_def)
          have "\<exists>ul ur ll lr evs''.
                 Some img = Some (compose e ul ur ll lr) \<and>
                 evs' @ [EvSetTile tile] = evs'' @ [EvSetTile \<lparr>Pos = tc, Data = png_Encode e (compose e ul ur ll lr), Mtime = now s\<rparr>] \<and>
                 writes evs'' = [] \<and>
                 calls (evs' @ [EvSetTile tile]) = map (\<lambda>a. (a, tc_Zoom tc < 12)) (quad_list tc) \<and>
                 cache s' = (case tdb_set_error e \<lparr>Pos = tc, Data = png_Encode e (compose e ul ur ll lr), Mtime = now s\<rparr> of
                    None \<Rightarrow> (cache s)(tc \<mapsto> \<lparr>Pos = tc, Data = png_Encode e (compose e ul ur ll lr), Mtime = now s\<rparr>)
                  | Some err \<Rightarrow> cache s)"
            apply (rule exI [of _ ul], rule exI [of _ ur], rule exI [of _ ll], rule exI [of _ lr])
            apply (rule exI [of _ evs'])
            using w c ca by (simp add: img_def tile_def cong: option.case_cong)
          with tr nw l rs show ?thesis
            by (intro exI [of _ "evs' @ [EvSetTile tile]"]) (simp add: img_def)
        qed
      qed
    qed
  qed
qed

lemma new_events_append [simp]:
  "trace s' = trace s @ evs \<Longrightarrow> new_events s s' = evs"
  by (simp add: new_events_def)

section \<open>Cache-only recursion\<close>

text \<open>
  Claim C8. A call of \<^verbatim>\<open>RenderImage\<close> with \<open>cachedOnly\<close> true on an address that has no
  cache entry returns the empty result and no error. The only events of the call are its
  entry and the lookup: the map block renderer is not called and nothing is written. No
  assumption is made on the layer id or the zoom of the address, so the call does not
  look for the layer and does not validate the zoom.
\<close>

theorem C8_cache_only_miss:
  assumes "tdb_get_error e tc = None" and "cache s tc = None"
  shows "RenderImage e tc True s =
           (Inr None, s\<lparr>trace := trace s @ [EvRenderImage tc True, EvGetTile tc]\<rparr>)"
  using assms by (simp add: RenderImage_cachedOnly entered_def)

text \<open>At zoom 0 and in a layer that does not exist the answer is still empty, not an error.\<close>

theorem C8_cache_only_miss_witness:
  "tdb_get_error ex_env (ex_tc 0 99) = None \<and> cache ex_cold (ex_tc 0 99) = None \<and>
   \<not> registered ex_env 99 \<and>
   RenderImage ex_env (ex_tc 0 99) True ex_cold =
     (Inr None, ex_cold\<lparr>trace := [EvRenderImage (ex_tc 0 99) True, EvGetTile (ex_tc 0 99)]\<rparr>)"
proof -
  have g: "tdb_get_error ex_env (ex_tc 0 99) = None" by (simp add: ex_env_def)
  have c: "cache ex_cold (ex_tc 0 99) = None" by (simp add: ex_cold_def)
  have r: "\<not> registered ex_env 99" by (simp add: registered_def ex_env_def ex_layers_def)
  from C8_cache_only_miss [OF g c] g c r show ?thesis by (simp add: ex_cold_def)
qed

section \<open>Corrupt cache entries\<close>

text \<open>
  Claim C9. When the address has a cache entry whose bytes \<^verbatim>\<open>png.Decode\<close> rejects,
  \<^verbatim>\<open>RenderImage\<close> returns that error, whatever \<open>cachedOnly\<close> is. The only events of the
  call are its entry and the lookup, and the cache is the one it started with: nothing is
  rendered afresh and the entry is not overwritten.
\<close>

theorem C9_decode_error:
  assumes "tdb_get_error e tc = None" and "cache s tc = Some t"
    and "png_Decode e (Data t) = Inl err"
  shows "RenderImage e tc cachedOnly s =
           (Inl err, s\<lparr>trace := trace s @ [EvRenderImage tc cachedOnly, EvGetTile tc]\<rparr>)"
  using assms by (simp add: RenderImage_hit from_cache_def entered_def)

theorem C9_decode_error_witness:
  "RenderImage ex_env (ex_tc 7 0) False ex_corrupt =
     (Inl (DecodeError ''png: invalid format''),
      ex_corrupt\<lparr>trace := [EvRenderImage (ex_tc 7 0) False, EvGetTile (ex_tc 7 0)]\<rparr>)"
proof -
  have g: "tdb_get_error ex_env (ex_tc 7 0) = None" by (simp add: ex_env_def)
  have c: "cache ex_corrupt (ex_tc 7 0) = Some \<lparr>Pos = ex_tc 7 0, Data = [1, 2, 3], Mtime = 1500000000\<rparr>"
    by (simp add: ex_corrupt_def)
  have d: "png_Decode ex_env (Data \<lparr>Pos = ex_tc 7 0, Data = [1, 2, 3], Mtime = 1500000000\<rparr>)
             = Inl (DecodeError ''png: invalid format'')"
    by (simp add: ex_env_def ex_Decode_def)
  from C9_decode_error [OF g c d, of False] show ?thesis by (simp add: ex_corrupt_def)
qed

lemma compose_blank: "compose e None None None None = NewNRGBA tile_rect"
  by (simp add: compose_def draw_quadrant_def)

lemma in_writes: "t \<in> set (writes evs) \<longleftrightarrow> EvSetTile t \<in> set evs"
  by (induction evs rule: writes.induct) auto

lemma new_events_entered [simp]:
  "new_events s (entered tc f s) = [EvRenderImage tc f, EvGetTile tc]"
  by (simp add: entered_def)

lemma find_layer_registered:
  "find_layer (layers e) lid = None \<longleftrightarrow> \<not> registered e lid"
  by (simp add: find_layer_eq registered_def)

text \<open>The children of a tile nobody has rendered, when the tile is coarser than zoom 12.\<close>

lemma cold_compose:
  assumes get: "tdb_get_error e tc = None" and miss: "cache s tc = None"
    and reg: "registered e (tc_LayerId tc)"
    and z: "1 \<le> tc_Zoom tc" "tc_Zoom tc < 12"
    and kids: "\<forall>a \<in> set (quad_list tc). tdb_get_error e a = None \<and> cache s a = None"
  shows "RenderImage e tc False s =
     store_composite e tc (NewNRGBA tile_rect)
       (s\<lparr>trace := trace s @ EvRenderImage tc False # EvGetTile tc #
           concat (map (\<lambda>a. [EvRenderImage a True, EvGetTile a]) (quad_list tc))\<rparr>)"
proof -
  from reg obtain layer where lay: "find_layer (layers e) (tc_LayerId tc) = Some layer"
    using find_layer_registered [of e "tc_LayerId tc"] by auto
  from kids have k:
    "tdb_get_error e (UpperLeft (GetZoomedQuadrantsFromTile tc)) = None"
    "tdb_get_error e (UpperRight (GetZoomedQuadrantsFromTile tc)) = None"
    "tdb_get_error e (LowerLeft (GetZoomedQuadrantsFromTile tc)) = None"
    "tdb_get_error e (LowerRight (GetZoomedQuadrantsFromTile tc)) = None"
    "cache s (UpperLeft (GetZoomedQuadrantsFromTile tc)) = None"
    "cache s (UpperRight (GetZoomedQuadrantsFromTile tc)) = None"
    "cache s (LowerLeft (GetZoomedQuadrantsFromTile tc)) = None"
    "cache s (LowerRight (GetZoomedQuadrantsFromTile tc)) = None"
    by (simp_all add: quad_list_def Let_def)
  show ?thesis
    using z k
    by (simp add: RenderImage_fresh [OF get miss] lay RenderImage_cachedOnly Let_def
        entered_def compose_blank quad_list_def)
qed

lemma from_cache_set_indep [simp]:
  "from_cache (e\<lparr>tdb_set_error := w\<rparr>) t = from_cache e t"
  by (simp add: from_cache_def)

lemma render_mapblocks_set_indep [simp]:
  "render_mapblocks (e\<lparr>tdb_set_error := w\<rparr>) tc layer s = render_mapblocks e tc layer s"
  by (simp add: render_mapblocks_def leaf_Render_def)

lemma draw_quadrant_set_indep [simp]:
  "draw_quadrant (e\<lparr>tdb_set_error := w\<rparr>) img r child = draw_quadrant e img r child"
  by (cases child) (simp_all add: draw_quadrant_def)

lemma compose_set_indep [simp]:
  "compose (e\<lparr>tdb_set_error := w\<rparr>) ul ur ll lr = compose e ul ur ll lr"
  by (simp add: compose_def)

lemma fst_store_composite [simp]: "fst (store_composite e tc img s) = Inr (Some img)"
  by (simp add: store_composite_def Let_def)




section \<open>A failed cache write\<close>




lemma quad_list_zoom: "a \<in> set (quad_list tc) \<Longrightarrow> tc_Zoom a = tc_Zoom tc + 1"
  by (auto simp: quad_list_def GetZoomedQuadrantsFromTile_def Let_def)

lemma length_quad_list [simp]: "length (quad_list tc) = 4"
  by (simp add: quad_list_def Let_def)

text \<open>The run of the example world on the cold tile at zoom 5, and at zoom 12.\<close>

lemma ex_cold5:
  "RenderImage ex_env (ex_tc 5 0) False ex_cold =
      (Inr (Some (NewNRGBA tile_rect)),
       \<lparr>cache = [ex_tc 5 0 \<mapsto> \<lparr>Pos = ex_tc 5 0, Data = ex_Encode (NewNRGBA tile_rect), Mtime = 1600000000\<rparr>],
        now = 1600000000,
        trace = EvRenderImage (ex_tc 5 0) False # EvGetTile (ex_tc 5 0) #
           concat (map (\<lambda>a. [EvRenderImage a True, EvGetTile a]) (quad_list (ex_tc 5 0))) @
           [EvSetTile \<lparr>Pos = ex_tc 5 0, Data = ex_Encode (NewNRGBA tile_rect), Mtime = 1600000000\<rparr>]\<rparr>)"
  by (subst cold_compose)
     (simp_all add: ex_env_def ex_cold_def ex_tc_def registered_def
        ex_layers_def store_composite_def SetTile_def emit_def Let_def)

lemma ex_env_fields [simp]:
  "layers ex_env = ex_layers"
  "tdb_get_error ex_env a = None"
  "tdb_set_error ex_env t = None"
  "mapblockrenderer_Render ex_env p1 p2 = Inr (Some ex_white)"
  "GetMapBlockRangeFromTile ex_env = ex_range"
  "png_Decode ex_env = ex_Decode"
  "png_Encode ex_env = ex_Encode"
  "imaging_Resize ex_env = ex_Resize"
  by (simp_all add: ex_env_def)

lemma ex_cold_fields [simp]:
  "cache ex_cold = Map.empty" "now ex_cold = 1600000000" "trace ex_cold = []"
  by (simp_all add: ex_cold_def)

lemma ex_find_layer [simp]:
  "find_layer ex_layers 0 = Some \<lparr>layer_Id = 1, layer_From = 11, layer_To = 24\<rparr>"
  by (simp add: find_layer_eq ex_layers_def)

text \<open>A tile of zoom 13 that is rendered from the map blocks.\<close>

lemma leaf_call:
  assumes "tdb_get_error e a = None" and "cache s a = None"
    and "find_layer (layers e) (tc_LayerId a) = Some layer" and "tc_Zoom a = 13"
  shows "RenderImage e a False s =
     (mapblockrenderer_Render e
        ((Pos1 (GetMapBlockRangeFromTile e a 0))\<lparr>mb_Y := layer_From layer\<rparr>)
        ((Pos2 (GetMapBlockRangeFromTile e a 0))\<lparr>mb_Y := layer_To layer\<rparr>),
      s\<lparr>trace := trace s @ [EvRenderImage a False, EvGetTile a,
         EvRender ((Pos1 (GetMapBlockRangeFromTile e a 0))\<lparr>mb_Y := layer_From layer\<rparr>)
                  ((Pos2 (GetMapBlockRangeFromTile e a 0))\<lparr>mb_Y := layer_To layer\<rparr>)]\<rparr>)"
  using assms
  by (simp add: RenderImage_zoom13 render_mapblocks_def leaf_Render_def emit_def entered_def
      Let_def)

lemma ex_cold12:
  "RenderImage ex_env (ex_tc 12 0) False ex_cold =
     (Inr (Some (compose ex_env (Some ex_white) (Some ex_white) (Some ex_white) (Some ex_white))),
      ex_cold\<lparr>trace := EvRenderImage (ex_tc 12 0) False # EvGetTile (ex_tc 12 0) #
          concat (map (\<lambda>a. [EvRenderImage a False, EvGetTile a,
             EvRender \<lparr>mb_X = tc_X a, mb_Y = 11, mb_Z = tc_Y a\<rparr>
                      \<lparr>mb_X = tc_X a, mb_Y = 24, mb_Z = tc_Y a\<rparr>]) (quad_list (ex_tc 12 0))) @
          [EvSetTile \<lparr>Pos = ex_tc 12 0,
           Data = ex_Encode (compose ex_env (Some ex_white) (Some ex_white) (Some ex_white) (Some ex_white)),
           Mtime = 1600000000\<rparr>],
        cache := [ex_tc 12 0 \<mapsto> \<lparr>Pos = ex_tc 12 0,
           Data = ex_Encode (compose ex_env (Some ex_white) (Some ex_white) (Some ex_white) (Some ex_white)),
           Mtime = 1600000000\<rparr>]\<rparr>)"
proof -
  have g: "tdb_get_error ex_env (ex_tc 12 0) = None" by simp
  have c: "cache ex_cold (ex_tc 12 0) = None" by simp
  show ?thesis
    unfolding RenderImage_fresh [OF g c]
    by (simp add: leaf_call ex_tc_def GetZoomedQuadrantsFromTile_def Let_def
        quad_list_def entered_def ex_range_def store_composite_def SetTile_def emit_def)
qed

section \<open>Which requests write to the cache\<close>

text \<open>
  Claim C2. On the fresh path (no cache entry, \<open>cachedOnly\<close> false) a request at zoom
  13 writes nothing: no \<^verbatim>\<open>SetTile\<close> is among its events and the cache is the one it
  started with. A request at a zoom from 1 to 12 that returns without an error has
  composed its raster, and exactly one \<^verbatim>\<open>SetTile\<close> is among its events: the entry of
  the requested address, holding the encoding of the returned raster and the time of the
  call. Nothing is assumed on the children, so this holds when all four are empty.
\<close>

theorem C2_cache_writes:
  assumes get: "tdb_get_error e tc = None" and miss: "cache s tc = None"
    and run: "RenderImage e tc False s = (r, s')"
  shows "(tc_Zoom tc = 13 \<longrightarrow> writes (new_events s s') = [] \<and> cache s' = cache s) \<and>
         (1 \<le> tc_Zoom tc \<and> tc_Zoom tc \<le> 12 \<longrightarrow>
            (\<forall>v. r = Inr v \<longrightarrow>
               (\<exists>img. v = Some img \<and>
                  writes (new_events s s') =
                    [\<lparr>Pos = tc, Data = png_Encode e img, Mtime = now s\<rparr>])))"
proof (intro conjI impI allI)
  assume z: "tc_Zoom tc = 13"
  from flat_call [OF _ run] z obtain evs where
    "cache s' = cache s" "trace s' = trace s @ EvRenderImage tc False # EvGetTile tc # evs"
    "writes evs = []"
    by auto
  then show "writes (new_events s s') = []" "cache s' = cache s" by simp_all
next
  fix v
  assume z: "1 \<le> tc_Zoom tc \<and> tc_Zoom tc \<le> 12" and ok: "r = Inr v"
  show "\<exists>img. v = Some img \<and>
          writes (new_events s s') = [\<lparr>Pos = tc, Data = png_Encode e img, Mtime = now s\<rparr>]"
  proof (cases "find_layer (layers e) (tc_LayerId tc)")
    case None
    with run ok show ?thesis by (simp add: RenderImage_fresh [OF get miss])
  next
    case (Some layer)
    from z have z1: "1 \<le> tc_Zoom tc" and z2: "tc_Zoom tc \<le> 12" by simp_all
    from compose_run [OF get miss Some z1 z2 run] ok obtain evs ul ur ll lr evs' where
      "trace s' = trace s @ EvRenderImage tc False # EvGetTile tc # evs"
      "v = Some (compose e ul ur ll lr)"
      "evs = evs' @ [EvSetTile \<lparr>Pos = tc, Data = png_Encode e (compose e ul ur ll lr), Mtime = now s\<rparr>]"
      "writes evs' = []"
      by auto
    then show ?thesis by simp
  qed
qed

text \<open>A leaf tile and an all-blank composite of the example world.\<close>

theorem C2_cache_writes_witness:
  "writes (new_events ex_cold (snd (RenderImage ex_env (ex_tc 13 0) False ex_cold))) = [] \<and>
   cache (snd (RenderImage ex_env (ex_tc 13 0) False ex_cold)) = cache ex_cold \<and>
   fst (RenderImage ex_env (ex_tc 5 0) False ex_cold) = Inr (Some (NewNRGBA tile_rect)) \<and>
   writes (new_events ex_cold (snd (RenderImage ex_env (ex_tc 5 0) False ex_cold))) =
     [\<lparr>Pos = ex_tc 5 0, Data = png_Encode ex_env (NewNRGBA tile_rect), Mtime = 1600000000\<rparr>]"
proof -
  have g: "\<And>z. tdb_get_error ex_env (ex_tc z 0) = None" by (simp add: ex_env_def)
  have c: "\<And>z. cache ex_cold (ex_tc z 0) = None" by (simp add: ex_cold_def)
  have r13: "RenderImage ex_env (ex_tc 13 0) False ex_cold =
      (fst (RenderImage ex_env (ex_tc 13 0) False ex_cold),
       snd (RenderImage ex_env (ex_tc 13 0) False ex_cold))" by simp
  have r5: "RenderImage ex_env (ex_tc 5 0) False ex_cold =
      (fst (RenderImage ex_env (ex_tc 5 0) False ex_cold),
       snd (RenderImage ex_env (ex_tc 5 0) False ex_cold))" by simp
  have z13: "tc_Zoom (ex_tc 13 0) = 13" and z5: "1 \<le> tc_Zoom (ex_tc 5 0) \<and> tc_Zoom (ex_tc 5 0) \<le> 12"
    by (simp_all add: ex_tc_def)
  have f5: "fst (RenderImage ex_env (ex_tc 5 0) False ex_cold) = Inr (Some (NewNRGBA tile_rect))"
    by (simp add: ex_cold5)
  have n: "now ex_cold = 1600000000" by (simp add: ex_cold_def)
  from C2_cache_writes [OF g c r13] C2_cache_writes [OF g c r5] z13 z5 f5 n
  show ?thesis by auto
qed

section \<open>The flag of the child renders\<close>

text \<open>
  Claim C3. On the fresh path of an address at a zoom from 1 to 12 the calls of
  \<^verbatim>\<open>RenderImage\<close> after the first are calls on the children, in the order upper left, upper
  right, lower left, lower right, each with \<open>cachedOnly\<close> equal to \<open>zoom < 12\<close>: false
  when the parent is at zoom 12 and true from zoom 1 to 11. All four are made when the
  request returns without an error (an error ends the run after the child that raised it,
  and an unknown layer before the first). Every child is at the zoom of the parent plus one.
\<close>

theorem C3_child_cache_only_flag:
  assumes get: "tdb_get_error e tc = None" and miss: "cache s tc = None"
    and z: "1 \<le> tc_Zoom tc" "tc_Zoom tc \<le> 12"
    and run: "RenderImage e tc False s = (r, s')"
  shows "(\<exists>n\<le>4. calls (new_events s s') =
             (tc, False) # map (\<lambda>a. (a, tc_Zoom tc < 12)) (take n (quad_list tc)) \<and>
             (\<forall>v. r = Inr v \<longrightarrow> n = 4)) \<and>
         (\<forall>a \<in> set (quad_list tc). tc_Zoom a = tc_Zoom tc + 1)"
proof
  show "\<forall>a \<in> set (quad_list tc). tc_Zoom a = tc_Zoom tc + 1"
    by (simp add: quad_list_zoom)
  show "\<exists>n\<le>4. calls (new_events s s') =
             (tc, False) # map (\<lambda>a. (a, tc_Zoom tc < 12)) (take n (quad_list tc)) \<and>
             (\<forall>v. r = Inr v \<longrightarrow> n = 4)"
  proof (cases "find_layer (layers e) (tc_LayerId tc)")
    case None
    with run have "r = Inl NoLayerFound" "s' = entered tc False s"
      by (simp_all add: RenderImage_fresh [OF get miss])
    then show ?thesis by (intro exI [of _ 0]) simp
  next
    case (Some layer)
    from compose_run [OF get miss Some z run] obtain evs where
      tr: "trace s' = trace s @ EvRenderImage tc False # EvGetTile tc # evs"
      and cs: "case r of
              Inl err \<Rightarrow> cache s' = cache s \<and> writes evs = [] \<and>
                 (\<exists>n<4. calls evs = map (\<lambda>a. (a, tc_Zoom tc < 12)) (take (Suc n) (quad_list tc)))
            | Inr v \<Rightarrow> (\<exists>ul ur ll lr evs'.
                 v = Some (compose e ul ur ll lr) \<and>
                 evs = evs' @ [EvSetTile \<lparr>Pos = tc, Data = png_Encode e (compose e ul ur ll lr), Mtime = now s\<rparr>] \<and>
                 writes evs' = [] \<and>
                 calls evs = map (\<lambda>a. (a, tc_Zoom tc < 12)) (quad_list tc) \<and>
                 cache s' = (case tdb_set_error e \<lparr>Pos = tc, Data = png_Encode e (compose e ul ur ll lr), Mtime = now s\<rparr> of
                    None \<Rightarrow> (cache s)(tc \<mapsto> \<lparr>Pos = tc, Data = png_Encode e (compose e ul ur ll lr), Mtime = now s\<rparr>)
                  | Some err \<Rightarrow> cache s))"
      by blast
    show ?thesis
    proof (cases r)
      case (Inl err)
      with cs obtain n where "n < 4"
        "calls evs = map (\<lambda>a. (a, tc_Zoom tc < 12)) (take (Suc n) (quad_list tc))"
        by auto
      with tr Inl show ?thesis by (intro exI [of _ "Suc n"]) simp
    next
      case (Inr v)
      with cs have "calls evs = map (\<lambda>a. (a, tc_Zoom tc < 12)) (quad_list tc)" by auto
      with tr show ?thesis by (intro exI [of _ 4]) simp
    qed
  qed
qed

text \<open>At zoom 12 the children are rendered afresh, at zoom 5 from the cache only.\<close>

theorem C3_child_cache_only_flag_witness:
  "calls (new_events ex_cold (snd (RenderImage ex_env (ex_tc 12 0) False ex_cold))) =
     (ex_tc 12 0, False) # map (\<lambda>a. (a, False)) (quad_list (ex_tc 12 0)) \<and>
   calls (new_events ex_cold (snd (RenderImage ex_env (ex_tc 5 0) False ex_cold))) =
     (ex_tc 5 0, False) # map (\<lambda>a. (a, True)) (quad_list (ex_tc 5 0))"
proof -
  have g: "\<And>z. tdb_get_error ex_env (ex_tc z 0) = None" by (simp add: ex_env_def)
  have c: "\<And>z. cache ex_cold (ex_tc z 0) = None" by (simp add: ex_cold_def)
  have r12: "RenderImage ex_env (ex_tc 12 0) False ex_cold =
      (fst (RenderImage ex_env (ex_tc 12 0) False ex_cold),
       snd (RenderImage ex_env (ex_tc 12 0) False ex_cold))" by simp
  have r5: "RenderImage ex_env (ex_tc 5 0) False ex_cold =
      (fst (RenderImage ex_env (ex_tc 5 0) False ex_cold),
       snd (RenderImage ex_env (ex_tc 5 0) False ex_cold))" by simp
  have z12: "1 \<le> tc_Zoom (ex_tc 12 0)" "tc_Zoom (ex_tc 12 0) \<le> 12"
    and z5: "1 \<le> tc_Zoom (ex_tc 5 0)" "tc_Zoom (ex_tc 5 0) \<le> 12"
    by (simp_all add: ex_tc_def)
  have f12: "\<exists>v. fst (RenderImage ex_env (ex_tc 12 0) False ex_cold) = Inr v"
    by (simp add: ex_cold12)
  have f5: "\<exists>v. fst (RenderImage ex_env (ex_tc 5 0) False ex_cold) = Inr v"
    by (simp add: ex_cold5)
  have t: "tc_Zoom (ex_tc 12 0) < 12 \<longleftrightarrow> False" "tc_Zoom (ex_tc 5 0) < 12 \<longleftrightarrow> True"
    by (simp_all add: ex_tc_def)
  from C3_child_cache_only_flag [OF g c z12 r12] C3_child_cache_only_flag [OF g c z5 r5] f12 f5
  show ?thesis unfolding t by auto
qed

section \<open>Validation of the layer and the zoom\<close>

text \<open>
  Claim C5, as amended. On the fresh path an address in a layer that is not registered
  fails with \<open>NoLayerFound\<close>, and an address in a registered layer with a zoom below 1
  or above 13 fails with \<open>InvalidZoom\<close>. Both checks come after the cache lookup of the
  address, which is the only input or output of the failing request: no child is looked
  up, nothing is written and the map block renderer is not called.
\<close>

theorem C5_validation_after_lookup:
  assumes "tdb_get_error e tc = None" and "cache s tc = None"
  shows "(\<not> registered e (tc_LayerId tc) \<longrightarrow>
            RenderImage e tc False s =
              (Inl NoLayerFound, s\<lparr>trace := trace s @ [EvRenderImage tc False, EvGetTile tc]\<rparr>)) \<and>
         (registered e (tc_LayerId tc) \<and> (tc_Zoom tc < 1 \<or> 13 < tc_Zoom tc) \<longrightarrow>
            RenderImage e tc False s =
              (Inl InvalidZoom, s\<lparr>trace := trace s @ [EvRenderImage tc False, EvGetTile tc]\<rparr>))"
  using assms
  by (auto simp: RenderImage_fresh find_layer_eq registered_def entered_def)

theorem C5_validation_after_lookup_witness:
  "\<not> registered ex_env 99 \<and>
   RenderImage ex_env (ex_tc 5 99) False ex_cold =
     (Inl NoLayerFound, ex_cold\<lparr>trace := [EvRenderImage (ex_tc 5 99) False, EvGetTile (ex_tc 5 99)]\<rparr>) \<and>
   registered ex_env 1 \<and>
   RenderImage ex_env (ex_tc 14 1) False ex_cold =
     (Inl InvalidZoom, ex_cold\<lparr>trace := [EvRenderImage (ex_tc 14 1) False, EvGetTile (ex_tc 14 1)]\<rparr>)"
proof -
  have g: "\<And>tc. tdb_get_error ex_env tc = None" by simp
  have c: "\<And>tc. cache ex_cold tc = None" by simp
  have r: "\<not> registered ex_env (tc_LayerId (ex_tc 5 99))" "registered ex_env (tc_LayerId (ex_tc 14 1))"
    by (simp_all add: registered_def ex_layers_def ex_tc_def)
  have z: "13 < tc_Zoom (ex_tc 14 1)" by (simp add: ex_tc_def)
  from C5_validation_after_lookup [OF g c, of "ex_tc 5 99"]
       C5_validation_after_lookup [OF g c, of "ex_tc 14 1"] r z
  show ?thesis by (simp add: ex_tc_def)
qed

text \<open>
  The claim as stated puts both checks before any cache input or output. The lookup of
  the requested address comes first: \<^verbatim>\<open>GetTile\<close> is in the trace of each failing request.
\<close>

theorem C5_lookup_precedes_validation:
  "RenderImage ex_env (ex_tc 0 0) False ex_cold =
     (Inl InvalidZoom, ex_cold\<lparr>trace := [EvRenderImage (ex_tc 0 0) False, EvGetTile (ex_tc 0 0)]\<rparr>) \<and>
   RenderImage ex_env (ex_tc 14 0) False ex_cold =
     (Inl InvalidZoom, ex_cold\<lparr>trace := [EvRenderImage (ex_tc 14 0) False, EvGetTile (ex_tc 14 0)]\<rparr>) \<and>
   RenderImage ex_env (ex_tc 5 99) False ex_cold =
     (Inl NoLayerFound, ex_cold\<lparr>trace := [EvRenderImage (ex_tc 5 99) False, EvGetTile (ex_tc 5 99)]\<rparr>)"
  by (simp add: RenderImage_fresh find_layer_eq ex_layers_def ex_tc_def entered_def)

section \<open>The volume of a leaf tile\<close>

text \<open>
  Claim C6 asks for the vertical bounds of the layer whose id the address carries. The
  address \<open>ex_tc 13 0\<close> is in layer 0, the first of the two layers, with bounds -1 and
  10; the loop leaves \<^verbatim>\<open>layer\<close> on the last layer of the list, and the volume handed to
  the map block renderer runs from 11 to 24.
\<close>

theorem C6_volume_of_last_layer:
  "find_layer ex_layers 0 = Some \<lparr>layer_Id = 1, layer_From = 11, layer_To = 24\<rparr> \<and>
   RenderImage ex_env (ex_tc 13 0) False ex_cold =
     (Inr (Some ex_white),
      ex_cold\<lparr>trace := [EvRenderImage (ex_tc 13 0) False, EvGetTile (ex_tc 13 0),
         EvRender \<lparr>mb_X = 3, mb_Y = 11, mb_Z = 7\<rparr> \<lparr>mb_X = 3, mb_Y = 24, mb_Z = 7\<rparr>]\<rparr>)"
  by (simp add: leaf_call [where layer = "\<lparr>layer_Id = 1, layer_From = 11, layer_To = 24\<rparr>"]
      ex_tc_def ex_range_def)

section \<open>The quadrants of a composed tile\<close>

lemma NRGBAAt_Draw:
  "NRGBAAt (Draw dst r src sp) x y =
     (if In (x, y) r \<and> In (x, y) (img_Rect dst) \<and>
         In (x - fst (rect_Min r) + fst sp, y - snd (rect_Min r) + snd sp) (img_Rect src)
      then NRGBAAt src (x - fst (rect_Min r) + fst sp) (y - snd (rect_Min r) + snd sp)
      else NRGBAAt dst x y)"
  by (simp add: NRGBAAt_def Draw_def Let_def)

lemma img_Rect_Draw [simp]: "img_Rect (Draw dst r src sp) = img_Rect dst"
  by (simp add: Draw_def)

lemma img_Rect_draw_quadrant [simp]: "img_Rect (draw_quadrant e img r child) = img_Rect img"
  by (cases child) (simp_all add: draw_quadrant_def)

lemma NRGBAAt_draw_quadrant:
  "NRGBAAt (draw_quadrant e img (Rect ox oy (ox + 128) (oy + 128)) child) x y =
     (if ox \<le> x \<and> x < ox + 128 \<and> oy \<le> y \<and> y < oy + 128 \<and> In (x, y) (img_Rect img) \<and>
         child \<noteq> None \<and> In (x - ox, y - oy) (img_Rect (imaging_Resize e (the child) 128 128))
      then NRGBAAt (imaging_Resize e (the child) 128 128) (x - ox) (y - oy)
      else NRGBAAt img x y)"
  by (cases child) (auto simp: draw_quadrant_def NRGBAAt_Draw In_def Rect_def ZP_def)

lemma NRGBAAt_New [simp]: "NRGBAAt (NewNRGBA r) x y = transparent"
  by (simp add: NRGBAAt_def NewNRGBA_def)

lemma img_Rect_New [simp]: "img_Rect (NewNRGBA r) = r"
  by (simp add: NewNRGBA_def)

lemma quadrant_pixel_eq:
  "quadrant_pixel e child u v =
     (if child \<noteq> None \<and> In (u, v) (img_Rect (imaging_Resize e (the child) 128 128))
      then NRGBAAt (imaging_Resize e (the child) 128 128) u v else transparent)"
  by (cases child) (simp_all add: quadrant_pixel_def NRGBAAt_def)

lemma compose_pixels:
  assumes "0 \<le> u" and "u < 128" and "0 \<le> v" and "v < 128"
  shows "NRGBAAt (compose e upperLeft upperRight lowerLeft lowerRight) u v =
           quadrant_pixel e upperLeft u v \<and>
         NRGBAAt (compose e upperLeft upperRight lowerLeft lowerRight) (128 + u) v =
           quadrant_pixel e upperRight u v \<and>
         NRGBAAt (compose e upperLeft upperRight lowerLeft lowerRight) u (128 + v) =
           quadrant_pixel e lowerLeft u v \<and>
         NRGBAAt (compose e upperLeft upperRight lowerLeft lowerRight) (128 + u) (128 + v) =
           quadrant_pixel e lowerRight u v"
proof -
  note dq = NRGBAAt_draw_quadrant [where ox = 0 and oy = 0, simplified]
    NRGBAAt_draw_quadrant [where ox = 128 and oy = 0, simplified]
    NRGBAAt_draw_quadrant [where ox = 0 and oy = 128, simplified]
    NRGBAAt_draw_quadrant [where ox = 128 and oy = 128, simplified]
  have t: "\<And>x y. In (x, y) tile_rect \<longleftrightarrow> 0 \<le> x \<and> x < 256 \<and> 0 \<le> y \<and> y < 256"
    by (auto simp: In_def tile_rect_def IMG_SIZE_def)
  show ?thesis
    unfolding compose_def Let_def
    using assms
    by (simp add: dq quadrant_pixel_eq t)
qed

text \<open>What a call that does not recurse returns depends on the cache only.\<close>

lemma flat_call_fst:
  assumes "f \<or> tc_Zoom a = 13" and "cache s = cache s2"
  shows "fst (RenderImage e a f s) = fst (RenderImage e a f s2)"
proof (cases f)
  case True
  with assms(2) show ?thesis
    by (simp add: RenderImage_cachedOnly split: option.splits)
next
  case False
  with assms have z: "tc_Zoom a = 13" by simp
  show ?thesis using False assms(2)
    by (simp add: RenderImage_zoom13 [OF z] render_mapblocks_def leaf_Render_def Let_def
        split: option.splits)
qed

text \<open>The composite of a run is made of what the four child renders return.\<close>

lemma compose_children:
  assumes get: "tdb_get_error e tc = None" and miss: "cache s tc = None"
    and z: "1 \<le> tc_Zoom tc" "tc_Zoom tc \<le> 12"
    and run: "RenderImage e tc False s = (Inr v, s')"
  shows "\<exists>ul ur ll lr.
           v = Some (compose e ul ur ll lr) \<and>
           child_result e tc s (UpperLeft (GetZoomedQuadrantsFromTile tc)) = Inr ul \<and>
           child_result e tc s (UpperRight (GetZoomedQuadrantsFromTile tc)) = Inr ur \<and>
           child_result e tc s (LowerLeft (GetZoomedQuadrantsFromTile tc)) = Inr ll \<and>
           child_result e tc s (LowerRight (GetZoomedQuadrantsFromTile tc)) = Inr lr"
proof -
  define f where "f = (tc_Zoom tc < 12)"
  define q where "q = GetZoomedQuadrantsFromTile tc"
  define s0 where "s0 = entered tc False s"
  have ql: "quad_list tc = [UpperLeft q, UpperRight q, LowerLeft q, LowerRight q]"
    by (simp add: quad_list_def q_def Let_def)
  have fl: "\<And>a. a \<in> set (quad_list tc) \<Longrightarrow> f \<or> tc_Zoom a = 13"
    unfolding f_def using quads_flat [OF z] by blast
  have fl4: "f \<or> tc_Zoom (UpperLeft q) = 13" "f \<or> tc_Zoom (UpperRight q) = 13"
    "f \<or> tc_Zoom (LowerLeft q) = 13" "f \<or> tc_Zoom (LowerRight q) = 13"
    using fl ql by simp_all
  from run obtain layer where lay: "find_layer (layers e) (tc_LayerId tc) = Some layer"
    by (cases "find_layer (layers e) (tc_LayerId tc)")
       (simp_all add: RenderImage_fresh [OF get miss])
  obtain r1 s1 where c1: "RenderImage e (UpperLeft q) f s0 = (r1, s1)"
    by (cases "RenderImage e (UpperLeft q) f s0")
  obtain r2 s2 where c2: "RenderImage e (UpperRight q) f s1 = (r2, s2)"
    by (cases "RenderImage e (UpperRight q) f s1")
  obtain r3 s3 where c3: "RenderImage e (LowerLeft q) f s2 = (r3, s3)"
    by (cases "RenderImage e (LowerLeft q) f s2")
  obtain r4 s4 where c4: "RenderImage e (LowerRight q) f s3 = (r4, s4)"
    by (cases "RenderImage e (LowerRight q) f s3")
  have k0: "cache s0 = cache s" by (simp add: s0_def entered_def)
  have k1: "cache s1 = cache s" using flat_call [OF fl4(1) c1] k0 by simp
  have k2: "cache s2 = cache s" using flat_call [OF fl4(2) c2] k1 by simp
  have k3: "cache s3 = cache s" using flat_call [OF fl4(3) c3] k2 by simp
  have e1: "child_result e tc s (UpperLeft q) = r1"
    using flat_call_fst [OF fl4(1) k0, of e] c1 by (simp add: child_result_def f_def)
  have e2: "child_result e tc s (UpperRight q) = r2"
    using flat_call_fst [OF fl4(2) k1, of e] c2 by (simp add: child_result_def f_def)
  have e3: "child_result e tc s (LowerLeft q) = r3"
    using flat_call_fst [OF fl4(3) k2, of e] c3 by (simp add: child_result_def f_def)
  have e4: "child_result e tc s (LowerRight q) = r4"
    using flat_call_fst [OF fl4(4) k3, of e] c4 by (simp add: child_result_def f_def)
  have unf: "RenderImage e tc False s =
      (case r1 of Inl err \<Rightarrow> (Inl err, s1) | Inr upperLeft \<Rightarrow>
       (case r2 of Inl err \<Rightarrow> (Inl err, s2) | Inr upperRight \<Rightarrow>
       (case r3 of Inl err \<Rightarrow> (Inl err, s3) | Inr lowerLeft \<Rightarrow>
       (case r4 of Inl err \<Rightarrow> (Inl err, s4) | Inr lowerRight \<Rightarrow>
          store_composite e tc (compose e upperLeft upperRight lowerLeft lowerRight) s4))))"
    using z
    by (simp add: RenderImage_fresh [OF get miss] lay Let_def q_def [symmetric]
        f_def [symmetric] s0_def [symmetric] c1 c2 c3 c4 split: sum.split)
  note unf = unf [unfolded run]
  from unf obtain ul where u1: "r1 = Inr ul" by (cases r1) simp_all
  from unf u1 obtain ur where u2: "r2 = Inr ur" by (cases r2) simp_all
  from unf u1 u2 obtain ll where u3: "r3 = Inr ll" by (cases r3) simp_all
  from unf u1 u2 u3 obtain lr where u4: "r4 = Inr lr" by (cases r4) simp_all
  from unf u1 u2 u3 u4 have "v = Some (compose e ul ur ll lr)"
    by (simp add: store_composite_def Let_def)
  with e1 e2 e3 e4 u1 u2 u3 u4 show ?thesis
    by (simp add: q_def)
qed

lemma compose_blank_quadrants:
  "(ul = None \<longrightarrow> blank_in (compose e ul ur ll lr) (Rect 0 0 128 128)) \<and>
   (ur = None \<longrightarrow> blank_in (compose e ul ur ll lr) (Rect 128 0 256 128)) \<and>
   (ll = None \<longrightarrow> blank_in (compose e ul ur ll lr) (Rect 0 128 128 256)) \<and>
   (lr = None \<longrightarrow> blank_in (compose e ul ur ll lr) (Rect 128 128 256 256))"
proof -
  have a: "ul = None \<Longrightarrow> blank_in (compose e ul ur ll lr) (Rect 0 0 128 128)"
    unfolding blank_in_def
  proof (intro allI impI)
    fix x y :: int
    assume n: "ul = None" and "In (x, y) (Rect 0 0 128 128)"
    then have r: "0 \<le> x" "x < 128" "0 \<le> y" "y < 128" by (simp_all add: In_def Rect_def)
    from compose_pixels [OF r, of e ul ur ll lr] n
    show "NRGBAAt (compose e ul ur ll lr) x y = transparent"
      by (simp add: quadrant_pixel_def)
  qed
  have b: "ur = None \<Longrightarrow> blank_in (compose e ul ur ll lr) (Rect 128 0 256 128)"
    unfolding blank_in_def
  proof (intro allI impI)
    fix x y :: int
    assume n: "ur = None" and "In (x, y) (Rect 128 0 256 128)"
    then have r: "0 \<le> x - 128" "x - 128 < 128" "0 \<le> y" "y < 128"
      by (simp_all add: In_def Rect_def)
    from compose_pixels [OF r, of e ul ur ll lr] n
    show "NRGBAAt (compose e ul ur ll lr) x y = transparent"
      by (simp add: quadrant_pixel_def)
  qed
  have c: "ll = None \<Longrightarrow> blank_in (compose e ul ur ll lr) (Rect 0 128 128 256)"
    unfolding blank_in_def
  proof (intro allI impI)
    fix x y :: int
    assume n: "ll = None" and "In (x, y) (Rect 0 128 128 256)"
    then have r: "0 \<le> x" "x < 128" "0 \<le> y - 128" "y - 128 < 128"
      by (simp_all add: In_def Rect_def)
    from compose_pixels [OF r, of e ul ur ll lr] n
    show "NRGBAAt (compose e ul ur ll lr) x y = transparent"
      by (simp add: quadrant_pixel_def)
  qed
  have d: "lr = None \<Longrightarrow> blank_in (compose e ul ur ll lr) (Rect 128 128 256 256)"
    unfolding blank_in_def
  proof (intro allI impI)
    fix x y :: int
    assume n: "lr = None" and "In (x, y) (Rect 128 128 256 256)"
    then have r: "0 \<le> x - 128" "x - 128 < 128" "0 \<le> y - 128" "y - 128 < 128"
      by (simp_all add: In_def Rect_def)
    from compose_pixels [OF r, of e ul ur ll lr] n
    show "NRGBAAt (compose e ul ur ll lr) x y = transparent"
      by (simp add: quadrant_pixel_def)
  qed
  from a b c d show ?thesis by blast
qed

text \<open>
  Claim C7, as amended. A request at a zoom from 1 to 12 that composes its raster makes
  it of what \<^verbatim>\<open>RenderImage\<close> returns for its four children. In the raster, the pixel at
  the offset \<open>(u, w)\<close> of a quadrant is the pixel \<open>(u, w)\<close> of the child of that quadrant
  resized to 128 by 128 (half the tile): the upper left child in the top left quadrant,
  the upper right child in the top right, the lower left child in the bottom left, the
  lower right child in the bottom right. The quadrant of an empty child is blank.
\<close>

theorem C7_quadrants:
  assumes get: "tdb_get_error e tc = None" and miss: "cache s tc = None"
    and z: "1 \<le> tc_Zoom tc" "tc_Zoom tc \<le> 12"
    and run: "RenderImage e tc False s = (Inr v, s')"
    and uw: "0 \<le> u" "u < 128" "0 \<le> w" "w < 128"
  shows "\<exists>img upperLeft upperRight lowerLeft lowerRight.
           v = Some img \<and>
           child_result e tc s (UpperLeft (GetZoomedQuadrantsFromTile tc)) = Inr upperLeft \<and>
           child_result e tc s (UpperRight (GetZoomedQuadrantsFromTile tc)) = Inr upperRight \<and>
           child_result e tc s (LowerLeft (GetZoomedQuadrantsFromTile tc)) = Inr lowerLeft \<and>
           child_result e tc s (LowerRight (GetZoomedQuadrantsFromTile tc)) = Inr lowerRight \<and>
           NRGBAAt img u w = quadrant_pixel e upperLeft u w \<and>
           NRGBAAt img (128 + u) w = quadrant_pixel e upperRight u w \<and>
           NRGBAAt img u (128 + w) = quadrant_pixel e lowerLeft u w \<and>
           NRGBAAt img (128 + u) (128 + w) = quadrant_pixel e lowerRight u w \<and>
           (upperLeft = None \<longrightarrow> blank_in img (Rect 0 0 128 128)) \<and>
           (upperRight = None \<longrightarrow> blank_in img (Rect 128 0 256 128)) \<and>
           (lowerLeft = None \<longrightarrow> blank_in img (Rect 0 128 128 256)) \<and>
           (lowerRight = None \<longrightarrow> blank_in img (Rect 128 128 256 256))"
proof -
  from compose_children [OF get miss z run] obtain ul ur ll lr where
    v: "v = Some (compose e ul ur ll lr)"
    and k: "child_result e tc s (UpperLeft (GetZoomedQuadrantsFromTile tc)) = Inr ul"
      "child_result e tc s (UpperRight (GetZoomedQuadrantsFromTile tc)) = Inr ur"
      "child_result e tc s (LowerLeft (GetZoomedQuadrantsFromTile tc)) = Inr ll"
      "child_result e tc s (LowerRight (GetZoomedQuadrantsFromTile tc)) = Inr lr"
    by blast
  show ?thesis
    apply (rule exI [of _ "compose e ul ur ll lr"])
    apply (rule exI [of _ ul], rule exI [of _ ur], rule exI [of _ ll], rule exI [of _ lr])
    using v k compose_pixels [OF uw, of e ul ur ll lr] compose_blank_quadrants [of ul e ur ll lr]
    by simp
qed

lemma ex_warm_fields [simp]:
  "cache ex_warm = [\<lparr>tc_X = 7, tc_Y = 14, tc_Zoom = 6, tc_LayerId = 0\<rparr> \<mapsto>
        \<lparr>Pos = \<lparr>tc_X = 7, tc_Y = 14, tc_Zoom = 6, tc_LayerId = 0\<rparr>,
         Data = [255, 0, 0, 255], Mtime = 1500000000\<rparr>]"
  "now ex_warm = 1600000000" "trace ex_warm = []"
  by (simp_all add: ex_warm_def)

lemma ex_red_pixels: "NRGBAAt ex_red 10 18 = (255, 0, 0, 255)"
  by (simp add: ex_red_def NRGBAAt_def Draw_def NewNRGBA_def Let_def In_def tile_rect_def
      IMG_SIZE_def ZP_def)

text \<open>The tile \<open>ex_tc 5 0\<close> composed when only its upper right child is in the cache.\<close>

lemma ex_warm5:
  "fst (RenderImage ex_env (ex_tc 5 0) False ex_warm) =
     Inr (Some (compose ex_env None (Some ex_red) None None))"
proof -
  have g: "tdb_get_error ex_env (ex_tc 5 0) = None" by simp
  have m: "cache ex_warm (ex_tc 5 0) = None" by (simp add: ex_tc_def)
  show ?thesis
    unfolding RenderImage_fresh [OF g m]
    by (simp add: RenderImage_cachedOnly from_cache_def ex_Decode_def ex_red_def
        GetZoomedQuadrantsFromTile_def ex_tc_def Let_def entered_def)
qed

text \<open>
  With one red child in the cache, the upper right one, the top right quadrant is red
  and the other three are blank.
\<close>

theorem C7_quadrants_witness:
  "fst (RenderImage ex_env (ex_tc 5 0) False ex_warm) =
     Inr (Some (compose ex_env None (Some ex_red) None None)) \<and>
   child_result ex_env (ex_tc 5 0) ex_warm (UpperRight (GetZoomedQuadrantsFromTile (ex_tc 5 0))) =
     Inr (Some ex_red) \<and>
   NRGBAAt (compose ex_env None (Some ex_red) None None) 5 9 = transparent \<and>
   NRGBAAt (compose ex_env None (Some ex_red) None None) (128 + 5) 9 = (255, 0, 0, 255) \<and>
   NRGBAAt (compose ex_env None (Some ex_red) None None) 5 (128 + 9) = transparent \<and>
   NRGBAAt (compose ex_env None (Some ex_red) None None) (128 + 5) (128 + 9) = transparent \<and>
   blank_in (compose ex_env None (Some ex_red) None None) (Rect 0 0 128 128)"
proof -
  have g: "tdb_get_error ex_env (ex_tc 5 0) = None" by simp
  have m: "cache ex_warm (ex_tc 5 0) = None" by (simp add: ex_tc_def)
  have z: "1 \<le> tc_Zoom (ex_tc 5 0)" "tc_Zoom (ex_tc 5 0) \<le> 12" by (simp_all add: ex_tc_def)
  have run: "RenderImage ex_env (ex_tc 5 0) False ex_warm =
      (Inr (Some (compose ex_env None (Some ex_red) None None)),
       snd (RenderImage ex_env (ex_tc 5 0) False ex_warm))"
    using ex_warm5 by (simp add: prod_eq_iff)
  have h: "(0::int) \<le> 5" "(5::int) < 128" "(0::int) \<le> 9" "(9::int) < 128" by simp_all
  have k: "child_result ex_env (ex_tc 5 0) ex_warm (UpperLeft (GetZoomedQuadrantsFromTile (ex_tc 5 0))) = Inr None"
    "child_result ex_env (ex_tc 5 0) ex_warm (UpperRight (GetZoomedQuadrantsFromTile (ex_tc 5 0))) = Inr (Some ex_red)"
    "child_result ex_env (ex_tc 5 0) ex_warm (LowerLeft (GetZoomedQuadrantsFromTile (ex_tc 5 0))) = Inr None"
    "child_result ex_env (ex_tc 5 0) ex_warm (LowerRight (GetZoomedQuadrantsFromTile (ex_tc 5 0))) = Inr None"
    by (simp_all add: child_result_def RenderImage_cachedOnly from_cache_def ex_Decode_def
        ex_red_def GetZoomedQuadrantsFromTile_def ex_tc_def)
  have q: "quadrant_pixel ex_env (Some ex_red) 5 9 = (255, 0, 0, 255)"
    "quadrant_pixel ex_env None 5 9 = transparent"
    by (simp_all add: quadrant_pixel_def ex_Resize_def ex_red_pixels
        NRGBAAt_def [of "\<lparr>img_Rect = r, img_Pix = p\<rparr>" for r p] In_def Rect_def)
  from C7_quadrants [OF g m z run h] obtain img upperLeft upperRight lowerLeft lowerRight where
    "Some (compose ex_env None (Some ex_red) None None) = Some img"
    "child_result ex_env (ex_tc 5 0) ex_warm (UpperLeft (GetZoomedQuadrantsFromTile (ex_tc 5 0))) = Inr upperLeft"
    "child_result ex_env (ex_tc 5 0) ex_warm (UpperRight (GetZoomedQuadrantsFromTile (ex_tc 5 0))) = Inr upperRight"
    "child_result ex_env (ex_tc 5 0) ex_warm (LowerLeft (GetZoomedQuadrantsFromTile (ex_tc 5 0))) = Inr lowerLeft"
    "child_result ex_env (ex_tc 5 0) ex_warm (LowerRight (GetZoomedQuadrantsFromTile (ex_tc 5 0))) = Inr lowerRight"
    "NRGBAAt img 5 9 = quadrant_pixel ex_env upperLeft 5 9"
    "NRGBAAt img (128 + 5) 9 = quadrant_pixel ex_env upperRight 5 9"
    "NRGBAAt img 5 (128 + 9) = quadrant_pixel ex_env lowerLeft 5 9"
    "NRGBAAt img (128 + 5) (128 + 9) = quadrant_pixel ex_env lowerRight 5 9"
    "upperLeft = None \<longrightarrow> blank_in img (Rect 0 0 128 128)"
    by blast
  with k q ex_warm5 show ?thesis by simp
qed

text \<open>
  The claim as stated has a quadrant blank only when its child is empty. The tile
  \<open>ex_tc 5 0\<close> has been cached as an all-blank composite; rendered as a child it is a
  raster, not the empty result, and its quadrant in the parent is blank.
\<close>

lemma ex_visited_fields [simp]:
  "cache ex_visited = [ex_tc 5 0 \<mapsto>
        \<lparr>Pos = ex_tc 5 0, Data = ex_Encode (NewNRGBA tile_rect), Mtime = 1600000000\<rparr>]"
  "now ex_visited = 1600000060" "trace ex_visited = []"
  by (simp_all add: ex_visited_def)

lemma ex_blank_bytes: "ex_Encode (NewNRGBA tile_rect) = [0, 0, 0, 0]"
  by (simp add: ex_Encode_def transparent_def)

lemma ex_blank_child_pixels: "NRGBAAt ex_blank_child x y = transparent"
  by (simp add: ex_blank_child_def NRGBAAt_def Draw_def NewNRGBA_def Let_def transparent_def)

theorem C7_blank_quadrant_of_cached_child:
  "fst (RenderImage ex_env (ex_tc 5 0) True ex_visited) = Inr (Some ex_blank_child) \<and>
   LowerRight (GetZoomedQuadrantsFromTile ex_parent) = ex_tc 5 0 \<and>
   fst (RenderImage ex_env ex_parent False ex_visited) =
     Inr (Some (compose ex_env None None None (Some ex_blank_child))) \<and>
   blank_in (compose ex_env None None None (Some ex_blank_child)) (Rect 128 128 256 256)"
proof -
  have a: "fst (RenderImage ex_env (ex_tc 5 0) True ex_visited) = Inr (Some ex_blank_child)"
    by (simp add: RenderImage_cachedOnly from_cache_def ex_blank_bytes ex_Decode_def
        ex_blank_child_def)
  have b: "LowerRight (GetZoomedQuadrantsFromTile ex_parent) = ex_tc 5 0"
    by (simp add: GetZoomedQuadrantsFromTile_def ex_parent_def ex_tc_def)
  have g: "tdb_get_error ex_env ex_parent = None" by simp
  have m: "cache ex_visited ex_parent = None" by (simp add: ex_parent_def ex_tc_def)
  have c: "fst (RenderImage ex_env ex_parent False ex_visited) =
     Inr (Some (compose ex_env None None None (Some ex_blank_child)))"
    unfolding RenderImage_fresh [OF g m]
    by (simp add: RenderImage_cachedOnly from_cache_def ex_blank_bytes ex_Decode_def
        ex_blank_child_def GetZoomedQuadrantsFromTile_def ex_parent_def ex_tc_def Let_def
        entered_def)
  have d: "blank_in (compose ex_env None None None (Some ex_blank_child)) (Rect 128 128 256 256)"
    unfolding blank_in_def
  proof (intro allI impI)
    fix x y :: int
    assume "In (x, y) (Rect 128 128 256 256)"
    then have r: "0 \<le> x - 128" "x - 128 < 128" "0 \<le> y - 128" "y - 128 < 128"
      by (simp_all add: In_def Rect_def)
    from compose_pixels [OF r, of ex_env None None None "Some ex_blank_child"]
    have "NRGBAAt (compose ex_env None None None (Some ex_blank_child)) x y =
            quadrant_pixel ex_env (Some ex_blank_child) (x - 128) (y - 128)"
      by simp
    then show "NRGBAAt (compose ex_env None None None (Some ex_blank_child)) x y = transparent"
      by (simp add: quadrant_pixel_def ex_Resize_def ex_blank_child_pixels
          NRGBAAt_def [of "\<lparr>img_Rect = r, img_Pix = p\<rparr>" for r p])
  qed
  from a b c d show ?thesis by simp
qed

section \<open>The top-level request\<close>

lemma Render_hit:
  "tdb_get_error e tc = None \<Longrightarrow> cache s tc = Some t \<Longrightarrow>
   Render e tc s = (Inr (Some (Data t)), s\<lparr>trace := trace s @ [EvGetTile tc]\<rparr>)"
  by (simp add: Render_def GetTile_def emit_def)

lemma Render_miss:
  "tdb_get_error e tc = None \<Longrightarrow> cache s tc = None \<Longrightarrow>
   Render e tc s =
     (case RenderImage e tc False (s\<lparr>trace := trace s @ [EvGetTile tc]\<rparr>) of
        (Inl err, s1) \<Rightarrow> (Inl err, s1)
      | (Inr None, s1) \<Rightarrow> (Inr None, s1)
      | (Inr (Some img), s1) \<Rightarrow> (Inr (Some (png_Encode e img)), s1))"
  by (simp add: Render_def GetTile_def emit_def)

lemma Render_get_error:
  "tdb_get_error e tc = Some err \<Longrightarrow>
   Render e tc s = (Inl err, s\<lparr>trace := trace s @ [EvGetTile tc]\<rparr>)"
  by (simp add: Render_def GetTile_def emit_def)

text \<open>The first request for a tile coarser than zoom 12 in an empty database.\<close>

lemma Render_cold:
  assumes z: "1 \<le> tc_Zoom tc" "tc_Zoom tc < 12" and empty: "cache s = Map.empty"
    and reg: "registered e (tc_LayerId tc)"
    and get: "\<forall>a. tdb_get_error e a = None" and set: "\<forall>t. tdb_set_error e t = None"
  shows "Render e tc s =
     (Inr (Some (png_Encode e (NewNRGBA tile_rect))),
      s\<lparr>trace := trace s @ EvGetTile tc # EvRenderImage tc False # EvGetTile tc #
           concat (map (\<lambda>a. [EvRenderImage a True, EvGetTile a]) (quad_list tc)) @
           [EvSetTile \<lparr>Pos = tc, Data = png_Encode e (NewNRGBA tile_rect), Mtime = now s\<rparr>],
         cache := [tc \<mapsto> \<lparr>Pos = tc, Data = png_Encode e (NewNRGBA tile_rect), Mtime = now s\<rparr>]\<rparr>)"
proof -
  let ?s0 = "s\<lparr>trace := trace s @ [EvGetTile tc]\<rparr>"
  have g: "tdb_get_error e tc = None" using get by simp
  have m: "cache s tc = None" "cache ?s0 tc = None" using empty by simp_all
  have k: "\<forall>a \<in> set (quad_list tc). tdb_get_error e a = None \<and> cache ?s0 a = None"
    using get empty by simp
  show ?thesis
    unfolding Render_miss [OF g m(1)] cold_compose [OF g m(2) reg z k]
    using set empty
    by (simp add: store_composite_def SetTile_def emit_def Let_def)
qed

text \<open>A leaf tile of the example world, asked for when the database does not hold it.\<close>

lemma ex_leaf_render:
  assumes "cache s (ex_tc 13 1) = None"
  shows "Render ex_env (ex_tc 13 1) s =
     (Inr (Some (ex_Encode ex_white)),
      s\<lparr>trace := trace s @ [EvGetTile (ex_tc 13 1), EvRenderImage (ex_tc 13 1) False,
         EvGetTile (ex_tc 13 1),
         EvRender \<lparr>mb_X = 3, mb_Y = 11, mb_Z = 7\<rparr> \<lparr>mb_X = 3, mb_Y = 24, mb_Z = 7\<rparr>]\<rparr>)"
proof -
  have g: "tdb_get_error ex_env (ex_tc 13 1) = None" by simp
  have m: "cache (s\<lparr>trace := trace s @ [EvGetTile (ex_tc 13 1)]\<rparr>) (ex_tc 13 1) = None"
    using assms by simp
  have l: "find_layer (layers ex_env) (tc_LayerId (ex_tc 13 1)) =
             Some \<lparr>layer_Id = 1, layer_From = 11, layer_To = 24\<rparr>"
    by (simp add: ex_tc_def find_layer_eq ex_layers_def)
  have z: "tc_Zoom (ex_tc 13 1) = 13" by (simp add: ex_tc_def)
  show ?thesis
    unfolding Render_miss [OF g assms] leaf_call [OF g m l z]
    by (simp add: ex_range_def ex_tc_def)
qed

subsection \<open>A coarse tile in an empty cache\<close>

text \<open>
  Claim C1, as amended. For an address at zoom 5 in a registered layer, an empty cache and
  a tile database that answers without errors, \<^verbatim>\<open>Render\<close> returns the encoding of the
  all-blank raster (bytes, not the empty result and not an error); the cache afterwards
  holds exactly one entry, for that address, with the same bytes; the map block renderer
  is not called. The same request again, at any later time, returns the same bytes from
  the cache: its only event is one lookup.
\<close>

theorem C1_cold_zoom5:
  assumes "tc_Zoom tc = 5" and "cache s = Map.empty" and "registered e (tc_LayerId tc)"
    and "\<forall>a. tdb_get_error e a = None" and "\<forall>t. tdb_set_error e t = None"
  shows "fst (Render e tc s) = Inr (Some (png_Encode e (NewNRGBA tile_rect))) \<and>
         cache (snd (Render e tc s)) =
           [tc \<mapsto> \<lparr>Pos = tc, Data = png_Encode e (NewNRGBA tile_rect), Mtime = now s\<rparr>] \<and>
         leaf_calls (new_events s (snd (Render e tc s))) = [] \<and>
         (\<forall>t. Render e tc ((snd (Render e tc s))\<lparr>now := t\<rparr>) =
            (Inr (Some (png_Encode e (NewNRGBA tile_rect))),
             (snd (Render e tc s))\<lparr>now := t, trace := trace (snd (Render e tc s)) @ [EvGetTile tc]\<rparr>))"
proof -
  have z: "1 \<le> tc_Zoom tc" "tc_Zoom tc < 12" using assms(1) by simp_all
  note r = Render_cold [OF z assms(2-5)]
  have g: "tdb_get_error e tc = None" using assms(4) by simp
  show ?thesis
    unfolding r
    by (simp add: Render_hit [OF g] quad_list_def Let_def)
qed

theorem C1_cold_zoom5_witness:
  "fst (Render ex_env (ex_tc 5 0) ex_cold) = Inr (Some [0, 0, 0, 0]) \<and>
   cache (snd (Render ex_env (ex_tc 5 0) ex_cold)) =
     [ex_tc 5 0 \<mapsto> \<lparr>Pos = ex_tc 5 0, Data = [0, 0, 0, 0], Mtime = 1600000000\<rparr>] \<and>
   leaf_calls (new_events ex_cold (snd (Render ex_env (ex_tc 5 0) ex_cold))) = [] \<and>
   fst (Render ex_env (ex_tc 5 0) ((snd (Render ex_env (ex_tc 5 0) ex_cold))\<lparr>now := 1600000060\<rparr>)) =
     Inr (Some [0, 0, 0, 0])"
proof -
  have h: "tc_Zoom (ex_tc 5 0) = 5" "cache ex_cold = Map.empty"
    "registered ex_env (tc_LayerId (ex_tc 5 0))"
    "\<forall>a. tdb_get_error ex_env a = None" "\<forall>t. tdb_set_error ex_env t = None"
    by (simp_all add: ex_tc_def registered_def ex_layers_def)
  from C1_cold_zoom5 [OF h] show ?thesis
    by (simp add: ex_blank_bytes)
qed

text \<open>
  The claim as stated expects the empty result from the first request. The composite of
  four empty children is a raster of the tile size, and \<^verbatim>\<open>Render\<close> encodes it.
\<close>

theorem C1_cold_zoom5_returns_bytes:
  "fst (Render ex_env (ex_tc 5 0) ex_cold) = Inr (Some [0, 0, 0, 0]) \<and>
   fst (Render ex_env (ex_tc 5 0) ex_cold) \<noteq> Inr None"
proof -
  have h: "1 \<le> tc_Zoom (ex_tc 5 0)" "tc_Zoom (ex_tc 5 0) < 12" "cache ex_cold = Map.empty"
    "registered ex_env (tc_LayerId (ex_tc 5 0))"
    "\<forall>a. tdb_get_error ex_env a = None" "\<forall>t. tdb_set_error ex_env t = None"
    by (simp_all add: ex_tc_def registered_def ex_layers_def)
  show ?thesis
    unfolding Render_cold [OF h] by (simp add: ex_blank_bytes)
qed

subsection \<open>The same request twice\<close>

lemma ex_env_own_fields [simp]:
  "layers ex_env_own = ex_layers"
  "tdb_get_error ex_env_own a = None"
  "tdb_set_error ex_env_own w =
     (if Pos w = ex_tc 12 0 then None else Some (CacheIOError ''read-only''))"
  "mapblockrenderer_Render ex_env_own p1 p2 = Inr (Some ex_white)"
  "GetMapBlockRangeFromTile ex_env_own = ex_range"
  "png_Encode ex_env_own = ex_Encode"
  by (simp_all add: ex_env_own_def)

text \<open>The cold tile at zoom 12 of the example world, asked for at the top level.\<close>

lemma ex_render12:
  "Render ex_env_own (ex_tc 12 0) ex_cold =
     (Inr (Some (ex_Encode (compose ex_env_own (Some ex_white) (Some ex_white) (Some ex_white) (Some ex_white)))),
      ex_cold\<lparr>trace := EvGetTile (ex_tc 12 0) # EvRenderImage (ex_tc 12 0) False #
          EvGetTile (ex_tc 12 0) #
          concat (map (\<lambda>a. [EvRenderImage a False, EvGetTile a,
             EvRender \<lparr>mb_X = tc_X a, mb_Y = 11, mb_Z = tc_Y a\<rparr>
                      \<lparr>mb_X = tc_X a, mb_Y = 24, mb_Z = tc_Y a\<rparr>]) (quad_list (ex_tc 12 0))) @
          [EvSetTile \<lparr>Pos = ex_tc 12 0,
           Data = ex_Encode (compose ex_env_own (Some ex_white) (Some ex_white) (Some ex_white) (Some ex_white)),
           Mtime = 1600000000\<rparr>],
        cache := [ex_tc 12 0 \<mapsto> \<lparr>Pos = ex_tc 12 0,
           Data = ex_Encode (compose ex_env_own (Some ex_white) (Some ex_white) (Some ex_white) (Some ex_white)),
           Mtime = 1600000000\<rparr>]\<rparr>)"
proof -
  let ?s0 = "ex_cold\<lparr>trace := trace ex_cold @ [EvGetTile (ex_tc 12 0)]\<rparr>"
  have g: "tdb_get_error ex_env_own (ex_tc 12 0) = None" by simp
  have c: "cache ex_cold (ex_tc 12 0) = None" "cache ?s0 (ex_tc 12 0) = None" by simp_all
  show ?thesis
    unfolding Render_miss [OF g c(1)] RenderImage_fresh [OF g c(2)]
    by (simp add: leaf_call ex_tc_def GetZoomedQuadrantsFromTile_def Let_def
        quad_list_def entered_def ex_range_def store_composite_def SetTile_def emit_def)
qed

text \<open>
  Claim C4, as amended. When a request returns without an error and either found its
  address in the cache, or is at a zoom other than 13 and the tile database accepted
  every write the request attempted, then the same request again (at any later time, the
  cache as the first one left it, the lookup of the address answered without an error)
  returns the same bytes, and its only event is that lookup: \<^verbatim>\<open>RenderImage\<close> and the map
  block renderer are not called.
\<close>

theorem C4_repeat_is_cached:
  assumes run: "Render e tc s = (Inr r, s1)"
    and cond: "cache s tc \<noteq> None \<or>
       (tc_Zoom tc \<noteq> 13 \<and> (\<forall>w \<in> set (writes (new_events s s1)). tdb_set_error e w = None))"
    and look: "g tc = None"
  shows "Render (e\<lparr>tdb_get_error := g\<rparr>) tc (s1\<lparr>now := t\<rparr>) =
           (Inr r, s1\<lparr>now := t, trace := trace s1 @ [EvGetTile tc]\<rparr>)"
proof -
  have look': "tdb_get_error (e\<lparr>tdb_get_error := g\<rparr>) tc = None" using look by simp
  show ?thesis
  proof (cases "tdb_get_error e tc")
    case (Some err)
    with run show ?thesis by (simp add: Render_get_error)
  next
    case get: None
    show ?thesis
    proof (cases "cache s tc")
      case (Some t0)
      from run have "r = Some (Data t0)" "s1 = s\<lparr>trace := trace s @ [EvGetTile tc]\<rparr>"
        by (simp_all add: Render_hit [OF get Some])
      then show ?thesis
        using Some by (simp add: Render_hit [OF look'])
    next
      case miss: None
      with cond have z13: "tc_Zoom tc \<noteq> 13"
        and set: "\<And>w. w \<in> set (writes (new_events s s1)) \<Longrightarrow> tdb_set_error e w = None"
        by simp_all
      let ?s0 = "s\<lparr>trace := trace s @ [EvGetTile tc]\<rparr>"
      have miss0: "cache ?s0 tc = None" using miss by simp
      obtain r' s' where ri: "RenderImage e tc False ?s0 = (r', s')"
        by (cases "RenderImage e tc False ?s0")
      from run ri obtain v where r': "r' = Inr v" and r: "r = map_option (png_Encode e) v"
        and s1: "s1 = s'"
        by (auto simp: Render_miss [OF get miss] split: sum.splits option.splits)
      show ?thesis
      proof (cases "find_layer (layers e) (tc_LayerId tc)")
        case None
        with ri r' show ?thesis by (simp add: RenderImage_fresh [OF get miss0])
      next
        case (Some layer)
        from ri r' Some z13 have z: "1 \<le> tc_Zoom tc" "tc_Zoom tc \<le> 12"
          by (auto simp: RenderImage_fresh [OF get miss0] split: if_splits)
        from compose_run [OF get miss0 Some z ri] r' obtain evs ul ur ll lr evs' where
          tr: "trace s' = trace ?s0 @ EvRenderImage tc False # EvGetTile tc # evs"
          and v: "v = Some (compose e ul ur ll lr)"
          and ev: "evs = evs' @ [EvSetTile \<lparr>Pos = tc, Data = png_Encode e (compose e ul ur ll lr), Mtime = now ?s0\<rparr>]"
          and c: "cache s' = (case tdb_set_error e \<lparr>Pos = tc, Data = png_Encode e (compose e ul ur ll lr), Mtime = now ?s0\<rparr> of
                      None \<Rightarrow> (cache ?s0)(tc \<mapsto> \<lparr>Pos = tc, Data = png_Encode e (compose e ul ur ll lr), Mtime = now ?s0\<rparr>)
                    | Some err \<Rightarrow> cache ?s0)"
          by auto
        have "trace s1 = trace s @ EvGetTile tc # EvRenderImage tc False # EvGetTile tc # evs"
          using tr by (simp add: s1)
        then have "new_events s s1 = EvGetTile tc # EvRenderImage tc False # EvGetTile tc # evs"
          by simp
        then have "\<lparr>Pos = tc, Data = png_Encode e (compose e ul ur ll lr), Mtime = now ?s0\<rparr>
            \<in> set (writes (new_events s s1))"
          by (simp add: ev)
        from set [OF this] c have "cache s' tc =
            Some \<lparr>Pos = tc, Data = png_Encode e (compose e ul ur ll lr), Mtime = now s\<rparr>"
          by simp
        then have h: "cache (s1\<lparr>now := t\<rparr>) tc =
            Some \<lparr>Pos = tc, Data = png_Encode e (compose e ul ur ll lr), Mtime = now s\<rparr>"
          by (simp add: s1)
        show ?thesis
          by (simp add: Render_hit [OF look' h] r v)
      qed
    qed
  qed
qed

text \<open>
  The cold tile at zoom 12: the first request calls the map block renderer four times,
  the second none, in a world whose database accepts no other write and, the second
  time, answers no other lookup.
\<close>

theorem C4_repeat_is_cached_witness:
  "fst (Render ex_env_own (ex_tc 12 0) ex_cold) =
     Inr (Some (ex_Encode (compose ex_env_own (Some ex_white) (Some ex_white) (Some ex_white) (Some ex_white)))) \<and>
   length (leaf_calls (new_events ex_cold (snd (Render ex_env_own (ex_tc 12 0) ex_cold)))) = 4 \<and>
   tdb_set_error ex_env_own \<lparr>Pos = ex_tc 5 0, Data = [], Mtime = 0\<rparr> = Some (CacheIOError ''read-only'') \<and>
   ex_only (ex_tc 12 0) (ex_tc 5 0) = Some (CacheIOError ''offline'') \<and>
   Render (ex_env_own\<lparr>tdb_get_error := ex_only (ex_tc 12 0)\<rparr>) (ex_tc 12 0)
       ((snd (Render ex_env_own (ex_tc 12 0) ex_cold))\<lparr>now := 1600000060\<rparr>) =
     (Inr (Some (ex_Encode (compose ex_env_own (Some ex_white) (Some ex_white) (Some ex_white) (Some ex_white)))),
      (snd (Render ex_env_own (ex_tc 12 0) ex_cold))
        \<lparr>now := 1600000060,
         trace := trace (snd (Render ex_env_own (ex_tc 12 0) ex_cold)) @ [EvGetTile (ex_tc 12 0)]\<rparr>)"
proof -
  let ?b = "ex_Encode (compose ex_env_own (Some ex_white) (Some ex_white) (Some ex_white) (Some ex_white))"
  have f: "fst (Render ex_env_own (ex_tc 12 0) ex_cold) = Inr (Some ?b)"
    by (simp add: ex_render12)
  then have run: "Render ex_env_own (ex_tc 12 0) ex_cold =
      (Inr (Some ?b), snd (Render ex_env_own (ex_tc 12 0) ex_cold))"
    by (simp add: prod_eq_iff)
  have w: "writes (new_events ex_cold (snd (Render ex_env_own (ex_tc 12 0) ex_cold))) =
      [\<lparr>Pos = ex_tc 12 0, Data = ?b, Mtime = 1600000000\<rparr>]"
    by (simp add: ex_render12 new_events_def quad_list_def Let_def)
  have l: "length (leaf_calls (new_events ex_cold (snd (Render ex_env_own (ex_tc 12 0) ex_cold)))) = 4"
    by (simp add: ex_render12 new_events_def quad_list_def Let_def)
  have cond: "cache ex_cold (ex_tc 12 0) \<noteq> None \<or>
      (tc_Zoom (ex_tc 12 0) \<noteq> 13 \<and>
       (\<forall>w \<in> set (writes (new_events ex_cold (snd (Render ex_env_own (ex_tc 12 0) ex_cold)))).
          tdb_set_error ex_env_own w = None))"
    unfolding w by (simp add: ex_tc_def)
  have look: "ex_only (ex_tc 12 0) (ex_tc 12 0) = None" by (simp add: ex_only_def)
  have o: "tdb_set_error ex_env_own \<lparr>Pos = ex_tc 5 0, Data = [], Mtime = 0\<rparr> = Some (CacheIOError ''read-only'')"
    "ex_only (ex_tc 12 0) (ex_tc 5 0) = Some (CacheIOError ''offline'')"
    by (simp_all add: ex_tc_def ex_only_def)
  from C4_repeat_is_cached [where g = "ex_only (ex_tc 12 0)" and t = 1600000060, OF run cond look] f l o
  show ?thesis by simp
qed

text \<open>
  The claim as stated covers every address. A tile at zoom 13 is never written to the
  cache, so the second request for it calls the map block renderer again.
\<close>

theorem C4_leaf_rendered_again:
  "fst (Render ex_env (ex_tc 13 1) ex_cold) = Inr (Some (ex_Encode ex_white)) \<and>
   cache (snd (Render ex_env (ex_tc 13 1) ex_cold)) = cache ex_cold \<and>
   leaf_calls (new_events (snd (Render ex_env (ex_tc 13 1) ex_cold))
      (snd (Render ex_env (ex_tc 13 1) (snd (Render ex_env (ex_tc 13 1) ex_cold))))) =
     [(\<lparr>mb_X = 3, mb_Y = 11, mb_Z = 7\<rparr>, \<lparr>mb_X = 3, mb_Y = 24, mb_Z = 7\<rparr>)]"
proof -
  have c: "cache ex_cold (ex_tc 13 1) = None" by simp
  note r1 = ex_leaf_render [OF c]
  have c1: "cache (snd (Render ex_env (ex_tc 13 1) ex_cold)) (ex_tc 13 1) = None"
    by (simp add: r1)
  note r2 = ex_leaf_render [OF c1]
  show ?thesis
    unfolding r2 by (simp add: r1 new_events_def)
qed

end
